theory Spec2Isabelle
  imports Complex_Main "HOL-Library.Word" "HOL-Library.Multiset" "HOL-Library.Sublist"
begin

section \<open>JavaScript strings\<close>

text \<open>
  A JavaScript string is a sequence of 16-bit UTF-16 code units. Source literals such as
  \<^verbatim>\<open>'role'\<close> are written \<open>str ''role''\<close>.
\<close>

type_synonym jsstring = "16 word list"

definition str :: "string \<Rightarrow> jsstring" where
  "str s = map (\<lambda>c. of_nat (of_char c)) s"

text \<open>The code units that \<^verbatim>\<open>String.prototype.trim\<close> and the numeric-string grammar
  treat as white space or line terminators.\<close>

definition isWhiteSpace :: "16 word \<Rightarrow> bool" where
  "isWhiteSpace c \<longleftrightarrow>
     (0x9 \<le> c \<and> c \<le> 0xD) \<or> c = 0x20 \<or> c = 0xA0 \<or> c = 0x1680 \<or>
     (0x2000 \<le> c \<and> c \<le> 0x200A) \<or> c = 0x2028 \<or> c = 0x2029 \<or> c = 0x202F \<or>
     c = 0x205F \<or> c = 0x3000 \<or> c = 0xFEFF"

definition trim :: "jsstring \<Rightarrow> jsstring" where
  "trim s = rev (dropWhile isWhiteSpace (rev (dropWhile isWhiteSpace s)))"

fun startsWith :: "jsstring \<Rightarrow> jsstring \<Rightarrow> bool" where
  "startsWith s [] = True"
| "startsWith [] (d # q) = False"
| "startsWith (c # s) (d # q) = (c = d \<and> startsWith s q)"

text \<open>\<^verbatim>\<open>s.includes(q)\<close>: \<open>q\<close> occurs in \<open>s\<close> at some position.\<close>

fun str_includes :: "jsstring \<Rightarrow> jsstring \<Rightarrow> bool" where
  "str_includes [] q = (q = [])"
| "str_includes (c # s) q = (startsWith (c # s) q \<or> str_includes s q)"

text \<open>The \<^verbatim>\<open><\<close> of two strings compares them lexicographically by code unit: a proper
  prefix is smaller, otherwise the first differing unit decides.\<close>

fun lex_lt :: "'a::linorder list \<Rightarrow> 'a list \<Rightarrow> bool" where
  "lex_lt [] [] = False"
| "lex_lt [] (d # t) = True"
| "lex_lt (c # s) [] = False"
| "lex_lt (c # s) (d # t) = (c < d \<or> (c = d \<and> lex_lt s t))"

definition str_lt :: "jsstring \<Rightarrow> jsstring \<Rightarrow> bool" where
  "str_lt s t = lex_lt s t"

section \<open>The host\<close>

text \<open>
  Three functions of the language rest on tables or choices that are not in the repository:
  \<^verbatim>\<open>String.prototype.toLowerCase\<close> follows the Unicode case tables, the text of a number is
  the shortest decimal that reads back as the same double, and the text of a built-in
  function is implementation-defined. They are parameters of the model: every function
  below that needs one takes the host, and every theorem holds for every host.
\<close>

record host =
  lowerCase :: "jsstring \<Rightarrow> jsstring"
  numberText :: "rat \<Rightarrow> jsstring"
  functionText :: "jsstring \<Rightarrow> jsstring"

section \<open>Exceptions\<close>

datatype exn = RangeError | TypeError

section \<open>JavaScript numbers\<close>

text \<open>
  A number is NaN, an infinity or a finite double, held as the rational it denotes (the two
  zeros are one value: the program never tells them apart). The results of reading a numeric
  text and of arithmetic are rounded to the nearest double, ties to even, and overflow to an
  infinity.
\<close>

datatype jsnum = NaN | Fin rat | PosInf | NegInf

fun num_lt :: "jsnum \<Rightarrow> jsnum \<Rightarrow> bool" where
  "num_lt (Fin a) (Fin b) = (a < b)"
| "num_lt (Fin a) PosInf = True"
| "num_lt NegInf (Fin b) = True"
| "num_lt NegInf PosInf = True"
| "num_lt _ _ = False"

fun num_neg :: "jsnum \<Rightarrow> jsnum" where
  "num_neg (Fin a) = Fin (- a)"
| "num_neg PosInf = NegInf"
| "num_neg NegInf = PosInf"
| "num_neg NaN = NaN"

subsection \<open>Rounding to a double\<close>

text \<open>The integer nearest to \<open>n / d\<close> for \<open>0 < d\<close>, the even one of two that are equally
  near.\<close>

definition round_half_even :: "int \<Rightarrow> int \<Rightarrow> int" where
  "round_half_even n d =
     (let q = n div d; r = n mod d
      in if 2 * r < d then q else if d < 2 * r then q + 1 else if even q then q else q + 1)"

text \<open>The number of binary digits of a positive integer.\<close>

function bitlen :: "int \<Rightarrow> int" where
  "bitlen n = (if n \<le> 0 then 0 else 1 + bitlen (n div 2))"
  by pat_completeness auto
termination
  by (relation "measure nat") auto

declare bitlen.simps [simp del]

definition pow2 :: "int \<Rightarrow> int" where
  "pow2 k = 2 ^ nat k"

text \<open>
  The double nearest to a rational \<open>a / b\<close>: with \<open>e\<close> the binary exponent of its magnitude,
  the magnitude is rounded to a multiple of \<open>2 ^ p\<close>, where \<open>p = e - 52\<close> (53 significant bits)
  and never below \<open>- 1074\<close> (the subnormal doubles); a result of \<open>2 ^ 1024\<close> or more is an
  infinity.
\<close>

definition toDouble :: "rat \<Rightarrow> jsnum" where
  "toDouble x =
     (let (a, b) = quotient_of x;
          n = \<bar>a\<bar>;
          e0 = bitlen n - bitlen b;
          e = (if (if 0 \<le> e0 then b * pow2 e0 \<le> n else b \<le> n * pow2 (- e0)) then e0 else e0 - 1);
          p = max (e - 52) (- 1074);
          m = (if 0 \<le> p then round_half_even n (b * pow2 p)
               else round_half_even (n * pow2 (- p)) b)
      in if a = 0 then Fin 0
         else if 0 \<le> p \<and> pow2 1024 \<le> m * pow2 p then (if 0 < a then PosInf else NegInf)
         else if 0 \<le> p then Fin (of_int (sgn a * m * pow2 p))
         else Fin (of_int (sgn a * m) / of_int (pow2 (- p))))"

fun num_plus :: "jsnum \<Rightarrow> jsnum \<Rightarrow> jsnum" where
  "num_plus NaN _ = NaN"
| "num_plus _ NaN = NaN"
| "num_plus (Fin a) (Fin b) = toDouble (a + b)"
| "num_plus PosInf NegInf = NaN"
| "num_plus NegInf PosInf = NaN"
| "num_plus PosInf _ = PosInf"
| "num_plus NegInf _ = NegInf"
| "num_plus (Fin a) b = b"

fun num_times :: "jsnum \<Rightarrow> jsnum \<Rightarrow> jsnum" where
  "num_times NaN _ = NaN"
| "num_times _ NaN = NaN"
| "num_times (Fin a) (Fin b) = toDouble (a * b)"
| "num_times (Fin a) b = (if a = 0 then NaN else if 0 < a then b else num_neg b)"
| "num_times a (Fin b) = (if b = 0 then NaN else if 0 < b then a else num_neg a)"
| "num_times PosInf b = b"
| "num_times NegInf b = num_neg b"

subsection \<open>The decimal digits of an integer\<close>

function digits_of :: "int \<Rightarrow> jsstring" where
  "digits_of n =
     (if n < 10 then [of_int (48 + n)] else digits_of (n div 10) @ [of_int (48 + n mod 10)])"
  by pat_completeness auto
termination
  by (relation "measure nat") auto

declare digits_of.simps [simp del]

definition intToString :: "int \<Rightarrow> jsstring" where
  "intToString n = (if n < 0 then 0x2D # digits_of (- n) else digits_of n)"

subsection \<open>String to number\<close>

text \<open>
  The grammar of \<^verbatim>\<open>Number(s)\<close> on a string: white space is stripped from both ends;
  the empty text is 0; then a hexadecimal, octal or binary literal without sign, or a
  signed decimal literal (digits, an optional fraction, an optional exponent) or
  \<^verbatim>\<open>Infinity\<close>. Anything else is NaN. The value is the double nearest to the literal's
  mathematical value (for a literal of more than 20 significant digits the language also
  allows the double nearest to the literal cut after the 20th digit; the engines round the
  literal itself, as here).
\<close>

definition isDigit :: "16 word \<Rightarrow> bool" where
  "isDigit c \<longleftrightarrow> 0x30 \<le> c \<and> c \<le> 0x39"

definition digitsVal :: "jsstring \<Rightarrow> int" where
  "digitsVal ds = foldl (\<lambda>a c. 10 * a + (uint c - 48)) 0 ds"

definition radixDigit :: "16 word \<Rightarrow> int" where
  "radixDigit c =
     (if 0x30 \<le> c \<and> c \<le> 0x39 then uint c - 48
      else if 0x61 \<le> c \<and> c \<le> 0x66 then uint c - 87
      else if 0x41 \<le> c \<and> c \<le> 0x46 then uint c - 55
      else 99)"

definition parseRadix :: "int \<Rightarrow> jsstring \<Rightarrow> jsnum" where
  "parseRadix r ds =
     (if ds \<noteq> [] \<and> list_all (\<lambda>c. radixDigit c < r) ds
      then toDouble (of_int (foldl (\<lambda>a c. r * a + radixDigit c) 0 ds))
      else NaN)"

definition parseDigits :: "jsstring \<Rightarrow> int option" where
  "parseDigits t = (if t \<noteq> [] \<and> list_all isDigit t then Some (digitsVal t) else None)"

definition parseExponent :: "jsstring \<Rightarrow> int option" where
  "parseExponent t =
     (case t of
        [] \<Rightarrow> None
      | c # r \<Rightarrow>
          if c = 0x2B then parseDigits r
          else if c = 0x2D then map_option uminus (parseDigits r)
          else parseDigits t)"

definition scale10 :: "rat \<Rightarrow> int \<Rightarrow> rat" where
  "scale10 m e = (if 0 \<le> e then m * 10 ^ nat e else m / 10 ^ nat (- e))"

definition parseUnsignedDecimal :: "jsstring \<Rightarrow> jsnum" where
  "parseUnsignedDecimal t =
     (if t = str ''Infinity'' then PosInf
      else
        let ip = takeWhile isDigit t;
            r1 = dropWhile isDigit t;
            hasDot = (case r1 of [] \<Rightarrow> False | c # _ \<Rightarrow> c = 0x2E);
            fp = (if hasDot then takeWhile isDigit (tl r1) else []);
            r2 = (if hasDot then dropWhile isDigit (tl r1) else r1)
        in
          if ip = [] \<and> fp = [] then NaN
          else
            (case r2 of
               [] \<Rightarrow> toDouble (scale10 (of_int (digitsVal (ip @ fp))) (- int (length fp)))
             | c # r \<Rightarrow>
                 if c = 0x65 \<or> c = 0x45 then
                   (case parseExponent r of
                      None \<Rightarrow> NaN
                    | Some e \<Rightarrow>
                        toDouble (scale10 (of_int (digitsVal (ip @ fp))) (e - int (length fp))))
                 else NaN))"

definition StringToNumber :: "jsstring \<Rightarrow> jsnum" where
  "StringToNumber s =
     (case trim s of
        [] \<Rightarrow> Fin 0
      | c # r \<Rightarrow>
          if c = 0x30 \<and> (case r of [] \<Rightarrow> False | d # _ \<Rightarrow> d = 0x78 \<or> d = 0x58)
            then parseRadix 16 (tl r)
          else if c = 0x30 \<and> (case r of [] \<Rightarrow> False | d # _ \<Rightarrow> d = 0x6F \<or> d = 0x4F)
            then parseRadix 8 (tl r)
          else if c = 0x30 \<and> (case r of [] \<Rightarrow> False | d # _ \<Rightarrow> d = 0x62 \<or> d = 0x42)
            then parseRadix 2 (tl r)
          else if c = 0x2B then parseUnsignedDecimal r
          else if c = 0x2D then num_neg (parseUnsignedDecimal r)
          else parseUnsignedDecimal (c # r))"

section \<open>JavaScript values\<close>

text \<open>
  The values of the program. A cell of the decoded sheet holds a text, a finite number (a
  double, as the rational it denotes), a boolean or null; a hole of a row reads as
  \<open>JUndefined\<close>. \<open>JObject t\<close> is an object that converts to the primitive text \<open>t\<close>: the
  program meets such a value only when it reads a member of \<^verbatim>\<open>Object.prototype\<close> from a
  row.
\<close>

datatype jsval = JUndefined | JNull | JBool bool | JNum rat | JStr jsstring | JObject jsstring

fun truthy :: "jsval \<Rightarrow> bool" where
  "truthy JUndefined = False"
| "truthy JNull = False"
| "truthy (JBool b) = b"
| "truthy (JNum n) = (n \<noteq> 0)"
| "truthy (JStr s) = (s \<noteq> [])"
| "truthy (JObject t) = True"

text \<open>\<^verbatim>\<open>a || b\<close>\<close>

definition js_or :: "jsval \<Rightarrow> jsval \<Rightarrow> jsval" where
  "js_or a b = (if truthy a then a else b)"

text \<open>\<^verbatim>\<open>String(v)\<close>\<close>

fun toString :: "host \<Rightarrow> jsval \<Rightarrow> jsstring" where
  "toString H JUndefined = str ''undefined''"
| "toString H JNull = str ''null''"
| "toString H (JBool b) = (if b then str ''true'' else str ''false'')"
| "toString H (JNum n) = numberText H n"
| "toString H (JStr s) = s"
| "toString H (JObject t) = t"

text \<open>\<^verbatim>\<open>Number(v)\<close>\<close>

fun Number :: "jsval \<Rightarrow> jsnum" where
  "Number JUndefined = NaN"
| "Number JNull = Fin 0"
| "Number (JBool b) = (if b then Fin 1 else Fin 0)"
| "Number (JNum n) = Fin n"
| "Number (JStr s) = StringToNumber s"
| "Number (JObject t) = StringToNumber t"

text \<open>The global \<^verbatim>\<open>isNaN(v)\<close> converts its argument to a number first.\<close>

definition isNaN :: "jsval \<Rightarrow> bool" where
  "isNaN v \<longleftrightarrow> Number v = NaN"

text \<open>\<^verbatim>\<open>a < b\<close>: both operands are converted to primitives; two texts are compared as
  strings, anything else as numbers, and a comparison with NaN is false.\<close>

fun toPrimitive :: "jsval \<Rightarrow> jsval" where
  "toPrimitive (JObject t) = JStr t"
| "toPrimitive v = v"

fun lt_primitive :: "jsval \<Rightarrow> jsval \<Rightarrow> bool" where
  "lt_primitive (JStr s) (JStr t) = str_lt s t"
| "lt_primitive a b = num_lt (Number a) (Number b)"

definition js_lt :: "jsval \<Rightarrow> jsval \<Rightarrow> bool" where
  "js_lt a b = lt_primitive (toPrimitive a) (toPrimitive b)"

section \<open>Objects and arrays\<close>

text \<open>
  A row object is its list of own properties in insertion order (the program reads a row
  by key, and all its values only to ask whether some value has a property, so the order is
  never observed). Assigning to a key the object has keeps the key's place and replaces the
  value; a new key goes to the end. The key \<^verbatim>\<open>__proto__\<close> is the exception: it is an
  accessor of \<^verbatim>\<open>Object.prototype\<close>, and assigning a text, a number or a boolean to it
  does nothing (the loader assigns nothing else).
\<close>

type_synonym row = "(jsstring \<times> jsval) list"

definition proto_name :: jsstring where
  "proto_name = str ''__proto__''"

fun own_set :: "row \<Rightarrow> jsstring \<Rightarrow> jsval \<Rightarrow> row" where
  "own_set [] k v = [(k, v)]"
| "own_set ((k', v') # r) k v = (if k' = k then (k, v) # r else (k', v') # own_set r k v)"

definition obj_set :: "row \<Rightarrow> jsstring \<Rightarrow> jsval \<Rightarrow> row" where
  "obj_set r k v = (if k = proto_name then r else own_set r k v)"

text \<open>
  Reading a key the object does not have goes to \<^verbatim>\<open>Object.prototype\<close>: \<^verbatim>\<open>__proto__\<close> gives
  that object itself, the names of its methods give functions, any other name gives
  \<^verbatim>\<open>undefined\<close>.
\<close>

definition prototype_functions :: "jsstring list" where
  "prototype_functions =
     [str ''constructor'', str ''hasOwnProperty'', str ''isPrototypeOf'',
      str ''propertyIsEnumerable'', str ''toLocaleString'', str ''toString'', str ''valueOf'',
      str ''__defineGetter__'', str ''__defineSetter__'', str ''__lookupGetter__'',
      str ''__lookupSetter__'']"

definition inherited :: "host \<Rightarrow> jsstring \<Rightarrow> jsval" where
  "inherited H k =
     (if k = proto_name then JObject (str ''[object Object]'')
      else if k \<in> set prototype_functions then JObject (functionText H k)
      else JUndefined)"

definition obj_get :: "host \<Rightarrow> row \<Rightarrow> jsstring \<Rightarrow> jsval" where
  "obj_get H r k = (case map_of r k of None \<Rightarrow> inherited H k | Some v \<Rightarrow> v)"

definition obj_values :: "row \<Rightarrow> jsval list" where
  "obj_values r = map snd r"

text \<open>
  An array is a list whose elements may be holes (\<open>None\<close>): \<^verbatim>\<open>sheet_to_json\<close> leaves a
  hole where a cell is empty and a later cell of the row is not. Reading a hole, or past
  the end, gives \<^verbatim>\<open>undefined\<close>.
\<close>

definition cellAt :: "jsval option list \<Rightarrow> nat \<Rightarrow> jsval" where
  "cellAt r i = (if i < length r then (case r ! i of None \<Rightarrow> JUndefined | Some v \<Rightarrow> v) else JUndefined)"


section \<open>Array.prototype.sort\<close>

text \<open>
  ECMA-262 fixes the result of \<^verbatim>\<open>sort\<close> only when the comparison function is a
  \<^emph>\<open>consistent comparator\<close> for the elements: then the result is the stable sorted
  permutation, computed here by insertion (\<open>sort_by\<close>). When the comparator is not
  consistent the sort order is implementation-defined, and only a permutation of the elements
  is promised. \<open>Array_sort cmp xs ys\<close> says that \<open>ys\<close> is a result the language allows.
\<close>

fun insert_by :: "('a \<Rightarrow> 'a \<Rightarrow> int) \<Rightarrow> 'a \<Rightarrow> 'a list \<Rightarrow> 'a list" where
  "insert_by cmp x [] = [x]"
| "insert_by cmp x (y # ys) = (if cmp x y \<le> 0 then x # y # ys else y # insert_by cmp x ys)"

definition sort_by :: "('a \<Rightarrow> 'a \<Rightarrow> int) \<Rightarrow> 'a list \<Rightarrow> 'a list" where
  "sort_by cmp xs = foldr (insert_by cmp) xs []"

definition consistent_comparator :: "('a \<Rightarrow> 'a \<Rightarrow> int) \<Rightarrow> 'a list \<Rightarrow> bool" where
  "consistent_comparator cmp xs \<longleftrightarrow>
     (\<forall>a\<in>set xs. \<forall>b\<in>set xs. \<forall>c\<in>set xs.
        cmp a a = 0 \<and>
        (cmp a b = 0 \<longrightarrow> cmp b a = 0) \<and>
        (cmp a b = 0 \<and> cmp b c = 0 \<longrightarrow> cmp a c = 0) \<and>
        (cmp a b < 0 \<and> cmp b c < 0 \<longrightarrow> cmp a c < 0) \<and>
        (cmp a b > 0 \<and> cmp b c > 0 \<longrightarrow> cmp a c > 0))"

definition Array_sort :: "('a \<Rightarrow> 'a \<Rightarrow> int) \<Rightarrow> 'a list \<Rightarrow> 'a list \<Rightarrow> bool" where
  "Array_sort cmp xs ys \<longleftrightarrow>
     mset ys = mset xs \<and> (consistent_comparator cmp xs \<longrightarrow> ys = sort_by cmp xs)"

text \<open>\<^verbatim>\<open>sort()\<close> without a comparison function compares the elements' strings. That
  comparator is consistent, so the result is \<open>sort_by (default_compare H)\<close>.\<close>

definition default_compare :: "host \<Rightarrow> jsval \<Rightarrow> jsval \<Rightarrow> int" where
  "default_compare H x y =
     (if str_lt (toString H x) (toString H y) then - 1
      else if str_lt (toString H y) (toString H x) then 1
      else 0)"

section \<open>The application state (App.jsx)\<close>

record app =
  allData :: "row list"
  headers :: "jsstring option list"
  search :: jsstring
  roleFilter :: jsstring
  teamFilter :: jsstring
  regionFilter :: jsstring
  sortCol :: int
  sortAsc :: bool
  error :: "jsstring option"
  loading :: bool

definition initial :: app where
  "initial = \<lparr> allData = [], headers = [], search = [], roleFilter = [], teamFilter = [],
     regionFilter = [], sortCol = - 1, sortAsc = True, error = None, loading = True \<rparr>"

subsection \<open>Column keys (lines 21-23)\<close>

text \<open>
  \<^verbatim>\<open>headers.find(h => h.toLowerCase().includes(target)) || ''\<close>. \<^verbatim>\<open>find\<close> visits every
  index up to the first match; at a hole \<^verbatim>\<open>h\<close> is \<^verbatim>\<open>undefined\<close> and
  \<^verbatim>\<open>h.toLowerCase()\<close> throws a TypeError.
\<close>

fun findKey :: "host \<Rightarrow> jsstring \<Rightarrow> jsstring option list \<Rightarrow> exn + jsstring" where
  "findKey H target [] = Inr []"
| "findKey H target (None # hs) = Inl TypeError"
| "findKey H target (Some h # hs) =
     (if str_includes (lowerCase H h) target then Inr (if h \<noteq> [] then h else [])
      else findKey H target hs)"

definition roleKey :: "host \<Rightarrow> app \<Rightarrow> exn + jsstring" where
  "roleKey H st = findKey H (str ''role'') (headers st)"

definition teamKey :: "host \<Rightarrow> app \<Rightarrow> exn + jsstring" where
  "teamKey H st = findKey H (str ''team'') (headers st)"

definition regionKey :: "host \<Rightarrow> app \<Rightarrow> exn + jsstring" where
  "regionKey H st = findKey H (str ''region'') (headers st)"

text \<open>The three keys are computed first, in this order, each time the component renders:
  what follows them is computed only if none of them threw.\<close>

definition columnKeys :: "host \<Rightarrow> app \<Rightarrow> exn + jsstring \<times> jsstring \<times> jsstring" where
  "columnKeys H st =
     (case roleKey H st of
        Inl e \<Rightarrow> Inl e
      | Inr rk \<Rightarrow>
          (case teamKey H st of
             Inl e \<Rightarrow> Inl e
           | Inr tk \<Rightarrow>
               (case regionKey H st of
                  Inl e \<Rightarrow> Inl e
                | Inr gk \<Rightarrow> Inr (rk, tk, gk))))"

subsection \<open>Loading the sheet (lines 27-54)\<close>

text \<open>\<^verbatim>\<open>hdrs.forEach((h, i) => obj[h] = row[i] || '')\<close>, from index \<open>i\<close> on; \<^verbatim>\<open>forEach\<close>
  skips the holes of \<^verbatim>\<open>hdrs\<close>.\<close>

fun fillRow :: "jsval option list \<Rightarrow> nat \<Rightarrow> jsstring option list \<Rightarrow> row \<Rightarrow> row" where
  "fillRow row i [] obj = obj"
| "fillRow row i (None # hs) obj = fillRow row (Suc i) hs obj"
| "fillRow row i (Some h # hs) obj =
     fillRow row (Suc i) hs (obj_set obj h (js_or (cellAt row i) (JStr [])))"

definition mkRow :: "jsstring option list \<Rightarrow> jsval option list \<Rightarrow> row" where
  "mkRow hdrs row = fillRow row 0 hdrs []"

text \<open>
  The argument is what the \<^verbatim>\<open>try\<close> block obtained: \<open>Inl message\<close> when fetching or
  decoding the workbook threw, \<open>Inr json\<close> with the grid of the first sheet otherwise.
  \<^verbatim>\<open>json[0].map(...)\<close> keeps the holes of the header row. The updates of the state take
  effect together, before the component computes anything from the new state.
\<close>

definition loadExcelFile :: "host \<Rightarrow> jsstring + jsval option list list \<Rightarrow> app \<Rightarrow> app" where
  "loadExcelFile H fetched st =
     (case fetched of
        Inl message \<Rightarrow> st\<lparr> error := Some message, loading := False \<rparr>
      | Inr json \<Rightarrow>
          (case json of
             [] \<Rightarrow> st\<lparr> loading := False \<rparr>
           | first # rest \<Rightarrow>
               (let hdrs = map (map_option (\<lambda>h. trim (toString H (js_or h (JStr []))))) first;
                    rows = filter (\<lambda>row. list_ex (\<lambda>v. v \<noteq> JStr []) (obj_values row))
                             (map (mkRow hdrs) rest)
                in st\<lparr> headers := hdrs, allData := rows, loading := False \<rparr>)))"

subsection \<open>Filter options (lines 59-61)\<close>





subsection \<open>Filtering (lines 64-72)\<close>

definition matchSearch :: "host \<Rightarrow> app \<Rightarrow> row \<Rightarrow> bool" where
  "matchSearch H st row \<longleftrightarrow>
     search st = [] \<or>
     list_ex (\<lambda>v. str_includes (lowerCase H (toString H v)) (lowerCase H (search st)))
       (obj_values row)"

definition filteredData :: "host \<Rightarrow> app \<Rightarrow> exn + row list" where
  "filteredData H st =
     (case columnKeys H st of
        Inl e \<Rightarrow> Inl e
      | Inr (rk, tk, gk) \<Rightarrow>
          Inr (filter (\<lambda>row.
            let matchRole = (roleFilter st = [] \<or> obj_get H row rk = JStr (roleFilter st));
                matchTeam = (teamFilter st = [] \<or> obj_get H row tk = JStr (teamFilter st));
                matchRegion = (regionFilter st = [] \<or> obj_get H row gk = JStr (regionFilter st))
            in matchSearch H st row \<and> matchRole \<and> matchTeam \<and> matchRegion)
           (allData st)))"

subsection \<open>Sorting (lines 75-83)\<close>

text \<open>\<^verbatim>\<open>headers[sortCol]\<close> used as a property name: at a hole or past the end it is
  \<^verbatim>\<open>undefined\<close>, which names the property \<^verbatim>\<open>"undefined"\<close>.\<close>

definition sortKey :: "app \<Rightarrow> jsstring" where
  "sortKey st =
     (if nat (sortCol st) < length (headers st)
      then (case headers st ! nat (sortCol st) of None \<Rightarrow> str ''undefined'' | Some h \<Rightarrow> h)
      else str ''undefined'')"

text \<open>The last three lines of the comparison function, given the outcomes of
  \<^verbatim>\<open>va < vb\<close> and \<^verbatim>\<open>va > vb\<close>.\<close>

definition outcome :: "bool \<Rightarrow> bool \<Rightarrow> bool \<Rightarrow> int" where
  "outcome asc lt gt =
     (if lt then (if asc then - 1 else 1)
      else if gt then (if asc then 1 else - 1)
      else 0)"

text \<open>
  The comparison function. When neither value is NaN as a number, both are replaced by
  their numbers and compared as numbers; otherwise they are compared as they are, with
  JavaScript's \<^verbatim>\<open><\<close> and \<^verbatim>\<open>>\<close>.
\<close>

definition compare :: "host \<Rightarrow> app \<Rightarrow> row \<Rightarrow> row \<Rightarrow> int" where
  "compare H st a b =
     (if sortCol st < 0 then 0
      else
        let key = sortKey st;
            va = obj_get H a key;
            vb = obj_get H b key
        in
          if \<not> isNaN va \<and> \<not> isNaN vb
          then outcome (sortAsc st) (num_lt (Number va) (Number vb)) (num_lt (Number vb) (Number va))
          else outcome (sortAsc st) (js_lt va vb) (js_lt vb va))"

text \<open>\<open>sortedData H st out\<close>: the rows were filtered without an exception, and \<open>out\<close> is
  a result of sorting them.\<close>

definition sortedData :: "host \<Rightarrow> app \<Rightarrow> row list \<Rightarrow> bool" where
  "sortedData H st out \<longleftrightarrow>
     (case filteredData H st of
        Inl e \<Rightarrow> False
      | Inr rows \<Rightarrow> Array_sort (compare H st) rows out)"

section \<open>Dates (lines 95-103)\<close>

text \<open>
  A \<^verbatim>\<open>Date\<close> holds a time value: milliseconds since 1970-01-01T00:00:00Z, or NaN for an
  invalid date (\<open>None\<close> here). Days and calendar dates are converted in the proleptic
  Gregorian calendar, months counted from 1.
\<close>

definition msPerDay :: int where
  "msPerDay = 86400000"

definition days_from_civil :: "int \<Rightarrow> int \<Rightarrow> int \<Rightarrow> int" where
  "days_from_civil y m d =
     (let y' = (if m \<le> 2 then y - 1 else y);
          era = y' div 400;
          yoe = y' - era * 400;
          doy = (153 * (if 2 < m then m - 3 else m + 9) + 2) div 5 + d - 1;
          doe = yoe * 365 + yoe div 4 - yoe div 100 + doy
      in era * 146097 + doe - 719468)"

definition civil_from_days :: "int \<Rightarrow> int \<times> int \<times> int" where
  "civil_from_days z0 =
     (let z = z0 + 719468;
          era = z div 146097;
          doe = z - era * 146097;
          yoe = (doe - doe div 1460 + doe div 36524 - doe div 146096) div 365;
          doy = doe - (365 * yoe + yoe div 4 - yoe div 100);
          mp = (5 * doy + 2) div 153;
          d = doy - (153 * mp + 2) div 5 + 1;
          m = (if mp < 10 then mp + 3 else mp - 9)
      in (if m \<le> 2 then yoe + era * 400 + 1 else yoe + era * 400, m, d))"

text \<open>
  \<^verbatim>\<open>new Date(year, monthIndex, day).getTime()\<close>: the arguments are a \<^emph>\<open>local\<close> date at
  midnight. \<open>tza\<close> is the environment's offset of local time from UTC at that moment, in
  milliseconds (3600000 for Central European Time).
\<close>

definition Date_local :: "int \<Rightarrow> int \<Rightarrow> int \<Rightarrow> int \<Rightarrow> int" where
  "Date_local tza year monthIndex day =
     days_from_civil (if 0 \<le> year \<and> year \<le> 99 then 1900 + year else year) (monthIndex + 1) day
       * msPerDay - tza"

text \<open>\<^verbatim>\<open>new Date(value)\<close> on a number: the time value is clipped.\<close>

fun TimeClip :: "jsnum \<Rightarrow> int option" where
  "TimeClip (Fin t) =
     (if 8640000000000000 < \<bar>t\<bar> then None
      else Some (if 0 \<le> t then \<lfloor>t\<rfloor> else \<lceil>t\<rceil>))"
| "TimeClip _ = None"

definition pad :: "nat \<Rightarrow> int \<Rightarrow> jsstring" where
  "pad w n = replicate (w - length (digits_of n)) 0x30 @ digits_of n"

text \<open>\<^verbatim>\<open>toISOString()\<close> of a valid time value, in UTC.\<close>

definition toISOString :: "int \<Rightarrow> jsstring" where
  "toISOString t =
     (let day = t div msPerDay;
          tid = t mod msPerDay;
          (y, m, d) = civil_from_days day
      in (if 0 \<le> y \<and> y \<le> 9999 then pad 4 y
          else (if y < 0 then 0x2D else 0x2B) # pad 6 \<bar>y\<bar>)
         @ str ''-'' @ pad 2 m @ str ''-'' @ pad 2 d
         @ str ''T'' @ pad 2 (tid div 3600000)
         @ str '':'' @ pad 2 (tid div 60000 mod 60)
         @ str '':'' @ pad 2 (tid div 1000 mod 60)
         @ str ''.'' @ pad 3 (tid mod 1000) @ str ''Z'')"

text \<open>
  \<^verbatim>\<open>toISOString\<close> throws a RangeError on an invalid date; \<^verbatim>\<open>.split('T')[0]\<close> is the text
  before the first \<^verbatim>\<open>T\<close>.
\<close>

definition parseGoogleSheetsDate :: "int \<Rightarrow> jsval \<Rightarrow> exn + jsstring" where
  "parseGoogleSheetsDate tza serialNumber =
     (if \<not> truthy serialNumber then Inr []
      else
        let epoch = Date_local tza 1899 11 30;
            date = TimeClip (num_plus (Fin (of_int epoch))
                     (num_times (Number serialNumber) (Fin 86400000)))
        in case date of
             None \<Rightarrow> Inl RangeError
           | Some t \<Rightarrow> Inr (takeWhile (\<lambda>c. c \<noteq> 0x54) (toISOString t)))"

section \<open>The invariant of a loaded dataset\<close>

text \<open>What loading establishes (proved below): every row has one entry for every header
  label other than \<^verbatim>\<open>__proto__\<close> and no other, and every value is the empty text or
  truthy.\<close>

definition normalized :: "app \<Rightarrow> bool" where
  "normalized st \<longleftrightarrow>
     (\<forall>d\<in>set (allData st).
        distinct (map fst d) \<and>
        fst ` set d = {h. Some h \<in> set (headers st) \<and> h \<noteq> proto_name} \<and>
        (\<forall>v\<in>set (obj_values d). v = JStr [] \<or> truthy v))"

section \<open>The specification's notions\<close>

text \<open>
  The definitions of this section follow the words of the specification, not the code; the
  theorems below compare the code with them.
\<close>

text \<open>The header labels: an empty header cell is the empty label.\<close>

definition labels :: "jsstring option list \<Rightarrow> jsstring list" where
  "labels hdrs = map (\<lambda>h. case h of None \<Rightarrow> [] | Some s \<Rightarrow> s) hdrs"





text \<open>
  Ingestion: a row is built by zipping the data row positionally against the header
  labels, the cells as given, a missing cell giving the empty text and a later duplicate
  label overwriting an earlier one; a row is kept when some value is not the empty text.
\<close>

definition cell_spec :: "jsval option list \<Rightarrow> nat \<Rightarrow> jsval" where
  "cell_spec r i =
     (if i < length r then (case r ! i of None \<Rightarrow> JStr [] | Some v \<Rightarrow> v) else JStr [])"

fun zip_spec :: "jsval option list \<Rightarrow> nat \<Rightarrow> jsstring list \<Rightarrow> row \<Rightarrow> row" where
  "zip_spec r i [] obj = obj"
| "zip_spec r i (h # hs) obj = zip_spec r (Suc i) hs (own_set obj h (cell_spec r i))"

definition rows_spec :: "jsstring list \<Rightarrow> jsval option list list \<Rightarrow> row list" where
  "rows_spec hdrs rest =
     filter (\<lambda>row. list_ex (\<lambda>v. v \<noteq> JStr []) (obj_values row))
       (map (\<lambda>r. zip_spec r 0 hdrs []) rest)"

text \<open>The code points of a string: a high surrogate followed by a low surrogate is one code
  point beyond the Basic Multilingual Plane.\<close>

fun code_points :: "jsstring \<Rightarrow> int list" where
  "code_points [] = []"
| "code_points [c] = [uint c]"
| "code_points (c # d # s) =
     (if 0xD800 \<le> c \<and> c \<le> 0xDBFF \<and> 0xDC00 \<le> d \<and> d \<le> 0xDFFF
      then (0x10000 + (uint c - 0xD800) * 0x400 + (uint d - 0xDC00)) # code_points s
      else uint c # code_points (d # s))"

definition codepoint_lt :: "jsstring \<Rightarrow> jsstring \<Rightarrow> bool" where
  "codepoint_lt s t = lex_lt (code_points s) (code_points t)"

definition isSurrogate :: "16 word \<Rightarrow> bool" where
  "isSurrogate c \<longleftrightarrow> 0xD800 \<le> c \<and> c \<le> 0xDFFF"

text \<open>The comparison of the specification: numbers when both values parse as numbers, else
  the values' texts in code-point order.\<close>

definition compare_spec :: "host \<Rightarrow> bool \<Rightarrow> jsval \<Rightarrow> jsval \<Rightarrow> int" where
  "compare_spec H asc va vb =
     (if \<not> isNaN va \<and> \<not> isNaN vb
      then outcome asc (num_lt (Number va) (Number vb)) (num_lt (Number vb) (Number va))
      else outcome asc (codepoint_lt (toString H va) (toString H vb))
             (codepoint_lt (toString H vb) (toString H va)))"

text \<open>The calendar date \<open>serial\<close> whole days after 1899-12-30, as \<^verbatim>\<open>YYYY-MM-DD\<close>.\<close>

definition calendarDate :: "int \<Rightarrow> jsstring" where
  "calendarDate serial =
     takeWhile (\<lambda>c. c \<noteq> 0x54) (toISOString ((days_from_civil 1899 12 30 + serial) * msPerDay))"

text \<open>Two rows keep their relative order from \<open>xs\<close> to \<open>ys\<close>: their occurrences form the
  same sequence in both.\<close>

definition keeps_order :: "'a \<Rightarrow> 'a \<Rightarrow> 'a list \<Rightarrow> 'a list \<Rightarrow> bool" where
  "keeps_order x y xs ys \<longleftrightarrow>
     filter (\<lambda>z. z = x \<or> z = y) ys = filter (\<lambda>z. z = x \<or> z = y) xs"

section \<open>Examples\<close>

text \<open>
  The host of the examples. On texts of ASCII characters \<open>lowerCase\<close> is what
  \<^verbatim>\<open>toLowerCase\<close> computes, and on whole numbers below \<open>10 ^ 21\<close> in magnitude \<open>numberText\<close>
  is what \<^verbatim>\<open>String\<close> computes; the examples hold no other text and no other number, and
  read no function of \<^verbatim>\<open>Object.prototype\<close>.
\<close>

definition asciiLower :: "16 word \<Rightarrow> 16 word" where
  "asciiLower c = (if 0x41 \<le> c \<and> c \<le> 0x5A then c + 0x20 else c)"

definition example_host :: host where
  "example_host =
     \<lparr> lowerCase = map asciiLower,
       numberText = (\<lambda>q. intToString \<lfloor>q\<rfloor>),
       functionText = (\<lambda>k. str ''function '' @ k @ str ''() { [native code] }'') \<rparr>"

text \<open>A grid without empty cells.\<close>

definition grid :: "jsval list list \<Rightarrow> jsval option list list" where
  "grid rows = map (map Some) rows"

text \<open>The sheet of the specification's end-to-end scenario.\<close>

definition players_sheet :: "jsval option list list" where
  "players_sheet = grid
     [[JStr (str ''Name''), JStr (str ''Role''), JStr (str ''Birthday'')],
      [JStr (str ''Alice''), JStr (str ''Support''), JStr (str ''44927'')],
      [JStr (str ''Bob''), JStr [], JStr []]]"

definition alice :: row where
  "alice = [(str ''Name'', JStr (str ''Alice'')), (str ''Role'', JStr (str ''Support'')),
            (str ''Birthday'', JStr (str ''44927''))]"

definition bob :: row where
  "bob = [(str ''Name'', JStr (str ''Bob'')), (str ''Role'', JStr []), (str ''Birthday'', JStr [])]"

definition players :: app where
  "players = loadExcelFile example_host (Inr players_sheet) initial"

text \<open>A sheet with short, long, blank and falsy rows, a white-space cell, a number and an
  empty cell before a filled one.\<close>

definition ragged_sheet :: "jsval option list list" where
  "ragged_sheet =
     [[Some (JStr (str ''Name'')), Some (JStr (str '' Role ''))],
      [Some (JStr (str ''Alice'')), Some (JStr (str ''Top''))],
      [Some (JStr []), Some (JStr [])],
      [Some (JStr (str '' ''))],
      [],
      [Some (JNum 0), Some (JBool False), Some JNull],
      [Some (JStr (str ''Carl'')), Some (JNum 7), Some (JStr (str ''extra''))],
      [None, Some (JStr (str ''Mid''))]]"

definition ragged :: app where
  "ragged = loadExcelFile example_host (Inr ragged_sheet) initial"

text \<open>A sheet with a score column: Ann scored 0, and the last row holds only zeros.\<close>

definition scores_sheet :: "jsval option list list" where
  "scores_sheet = grid
     [[JStr (str ''Name''), JStr (str ''Score'')],
      [JStr (str ''Ann''), JNum 0],
      [JNum 0, JNum 0]]"

definition scores :: app where
  "scores = loadExcelFile example_host (Inr scores_sheet) initial"

text \<open>A sheet whose second header cell holds only a space, so that its label is the empty
  text; no header names a role, a team or a region.\<close>

definition blank_header_sheet :: "jsval option list list" where
  "blank_header_sheet = grid
     [[JStr (str ''Name''), JStr (str '' '')],
      [JStr (str ''Ann''), JStr (str ''x'')],
      [JStr (str ''Ben''), JStr (str ''y'')]]"

definition blank_header :: app where
  "blank_header = loadExcelFile example_host (Inr blank_header_sheet) initial"



text \<open>A sheet whose second header cell is empty, before the team header: the header row
  has a hole there. The last row is filled in the second column only.\<close>

definition gap_sheet :: "jsval option list list" where
  "gap_sheet =
     [[Some (JStr (str ''Name'')), None, Some (JStr (str ''Team''))],
      [Some (JStr (str ''Ann'')), Some (JStr (str ''x'')), Some (JStr (str ''Red''))],
      [None, Some (JStr (str ''y''))]]"

definition gap :: app where
  "gap = loadExcelFile example_host (Inr gap_sheet) initial"

text \<open>A state with one column \<open>v\<close>, sorted ascending on it, holding the given values.\<close>

definition column_of :: "jsval list \<Rightarrow> app" where
  "column_of vs =
     initial\<lparr> headers := [Some (str ''v'')], allData := map (\<lambda>v. [(str ''v'', v)]) vs,
       sortCol := 0, loading := False \<rparr>"

section \<open>Auxiliary lemmas\<close>



lemma map_of_own_set: "map_of (own_set r k v) = (map_of r)(k \<mapsto> v)"
  by (induction r k v rule: own_set.induct) auto

lemma keys_own_set: "fst ` set (own_set r k v) = insert k (fst ` set r)"
  by (induction r k v rule: own_set.induct) auto

lemma distinct_own_set: "distinct (map fst r) \<Longrightarrow> distinct (map fst (own_set r k v))"
  by (induction r k v rule: own_set.induct) (auto simp: keys_own_set)

lemma values_own_set: "set (obj_values (own_set r k v)) \<subseteq> insert v (set (obj_values r))"
  by (induction r k v rule: own_set.induct) (auto simp: obj_values_def)

lemma map_of_obj_set:
  "map_of (obj_set r k v) k' =
     (if k = proto_name then map_of r k' else if k' = k then Some v else map_of r k')"
  by (simp add: obj_set_def map_of_own_set)

lemma keys_obj_set:
  "fst ` set (obj_set r k v) = (if k = proto_name then fst ` set r else insert k (fst ` set r))"
  by (simp add: obj_set_def keys_own_set)

lemma distinct_obj_set: "distinct (map fst r) \<Longrightarrow> distinct (map fst (obj_set r k v))"
  by (simp add: obj_set_def distinct_own_set)

lemma values_obj_set: "set (obj_values (obj_set r k v)) \<subseteq> insert v (set (obj_values r))"
  using values_own_set [of r k v] by (auto simp: obj_set_def)

lemma fillRow_map_other:
  "Some k \<notin> set hs \<Longrightarrow> map_of (fillRow row i hs obj) k = map_of obj k"
  by (induction row i hs obj rule: fillRow.induct) (auto simp: map_of_obj_set)

lemma fillRow_map_at:
  "j < length hs \<Longrightarrow> hs ! j = Some h \<Longrightarrow> h \<noteq> proto_name \<Longrightarrow> Some h \<notin> set (drop (Suc j) hs) \<Longrightarrow>
   map_of (fillRow row i hs obj) h = Some (js_or (cellAt row (i + j)) (JStr []))"
proof (induction row i hs obj arbitrary: j rule: fillRow.induct)
  case (1 row i obj)
  then show ?case by simp
next
  case (2 row i hs obj)
  then obtain j' where j: "j = Suc j'"
    by (cases j) auto
  with 2 show ?case by simp
next
  case (3 row i h' hs obj)
  show ?case
  proof (cases j)
    case 0
    with "3.prems" show ?thesis
      by (simp add: fillRow_map_other map_of_obj_set)
  next
    case (Suc j')
    with "3.prems" "3.IH" [of j'] show ?thesis
      by simp
  qed
qed

lemma fillRow_keys:
  "fst ` set (fillRow row i hs obj) = fst ` set obj \<union> {h. Some h \<in> set hs \<and> h \<noteq> proto_name}"
  by (induction row i hs obj rule: fillRow.induct) (auto simp: keys_obj_set)

lemma fillRow_distinct:
  "distinct (map fst obj) \<Longrightarrow> distinct (map fst (fillRow row i hs obj))"
  by (induction row i hs obj rule: fillRow.induct) (auto simp: distinct_obj_set)

lemma fillRow_values:
  "v \<in> set (obj_values (fillRow row i hs obj)) \<Longrightarrow>
   v \<in> set (obj_values obj) \<or> (\<exists>j. v = js_or (cellAt row j) (JStr []))"
proof (induction row i hs obj rule: fillRow.induct)
  case (3 row i h hs obj)
  from "3.prems" have
    "v \<in> set (obj_values (fillRow row (Suc i) hs (obj_set obj h (js_or (cellAt row i) (JStr [])))))"
    by simp
  from "3.IH" [OF this] show ?case
    using values_obj_set [of obj h "js_or (cellAt row i) (JStr [])"] by auto
qed simp_all

lemma fillRow_cong:
  "(\<And>j. i \<le> j \<Longrightarrow> j < i + length hs \<Longrightarrow>
      js_or (cellAt r j) (JStr []) = js_or (cellAt r' j) (JStr [])) \<Longrightarrow>
   fillRow r i hs obj = fillRow r' i hs obj"
proof (induction hs arbitrary: i obj)
  case Nil
  then show ?case by simp
next
  case (Cons a hs)
  have rest: "fillRow r (Suc i) hs obj' = fillRow r' (Suc i) hs obj'" for obj'
  proof (rule Cons.IH)
    show "js_or (cellAt r j) (JStr []) = js_or (cellAt r' j) (JStr [])"
      if "Suc i \<le> j" "j < Suc i + length hs" for j
      using Cons.prems [of j] that by simp
  qed
  have here: "js_or (cellAt r i) (JStr []) = js_or (cellAt r' i) (JStr [])"
    using Cons.prems [of i] by simp
  show ?case
    by (cases a) (simp_all add: rest here)
qed

lemma last_occurrence: "x \<in> set xs \<Longrightarrow> \<exists>i<length xs. xs ! i = x \<and> x \<notin> set (drop (Suc i) xs)"
proof (induction xs)
  case Nil
  then show ?case by simp
next
  case (Cons a xs)
  show ?case
  proof (cases "x \<in> set xs")
    case True
    from Cons.IH [OF this] obtain i where "i < length xs" "xs ! i = x" "x \<notin> set (drop (Suc i) xs)"
      by blast
    then have "Suc i < length (a # xs) \<and> (a # xs) ! Suc i = x \<and> x \<notin> set (drop (Suc (Suc i)) (a # xs))"
      by simp
    then show ?thesis by blast
  next
    case False
    with Cons.prems have "0 < length (a # xs) \<and> (a # xs) ! 0 = x \<and> x \<notin> set (drop (Suc 0) (a # xs))"
      by simp
    then show ?thesis by blast
  qed
qed

lemma js_or_empty_iff: "js_or c (JStr []) \<noteq> JStr [] \<longleftrightarrow> truthy c"
  by (cases c) (auto simp: js_or_def)

lemma js_or_value: "js_or c (JStr []) = (if truthy c then c else JStr [])"
  by (simp add: js_or_def)

lemma mkRow_own:
  "i < length hdrs \<Longrightarrow> hdrs ! i = Some h \<Longrightarrow> h \<noteq> proto_name \<Longrightarrow>
   Some h \<notin> set (drop (Suc i) hdrs) \<Longrightarrow>
   map_of (mkRow hdrs r) h = Some (if truthy (cellAt r i) then cellAt r i else JStr [])"
  using fillRow_map_at [of i hdrs h r 0 "[]"]
  by (simp add: mkRow_def js_or_value)

lemma mkRow_get:
  "i < length hdrs \<Longrightarrow> hdrs ! i = Some h \<Longrightarrow> h \<noteq> proto_name \<Longrightarrow>
   Some h \<notin> set (drop (Suc i) hdrs) \<Longrightarrow>
   obj_get H (mkRow hdrs r) h = (if truthy (cellAt r i) then cellAt r i else JStr [])"
  by (simp add: obj_get_def mkRow_own)

lemma mkRow_keys: "fst ` set (mkRow hdrs r) = {h. Some h \<in> set hdrs \<and> h \<noteq> proto_name}"
  by (simp add: mkRow_def fillRow_keys)

lemma mkRow_distinct: "distinct (map fst (mkRow hdrs r))"
  by (simp add: mkRow_def fillRow_distinct)

lemma mkRow_values:
  "v \<in> set (obj_values (mkRow hdrs r)) \<Longrightarrow> \<exists>j. v = js_or (cellAt r j) (JStr [])"
  using fillRow_values [of v r 0 hdrs "[]"] by (simp add: mkRow_def obj_values_def)

lemma mkRow_value_cases: "v \<in> set (obj_values (mkRow hdrs r)) \<Longrightarrow> v = JStr [] \<or> truthy v"
  using mkRow_values [of v hdrs r] by (auto simp: js_or_def)

lemma obj_get_own: "distinct (map fst d) \<Longrightarrow> (k, v) \<in> set d \<Longrightarrow> obj_get H d k = v"
  by (simp add: obj_get_def)


text \<open>A built row is kept exactly when some cell under the last occurrence of a header
  label other than \<^verbatim>\<open>__proto__\<close> is truthy.\<close>

lemma mkRow_kept_iff:
  "(\<exists>v\<in>set (obj_values (mkRow hdrs r)). v \<noteq> JStr []) \<longleftrightarrow>
   (\<exists>i h. i < length hdrs \<and> hdrs ! i = Some h \<and> h \<noteq> proto_name \<and>
      Some h \<notin> set (drop (Suc i) hdrs) \<and> truthy (cellAt r i))"
proof
  assume "\<exists>v\<in>set (obj_values (mkRow hdrs r)). v \<noteq> JStr []"
  then obtain k v where kv: "(k, v) \<in> set (mkRow hdrs r)" "v \<noteq> JStr []"
    by (auto simp: obj_values_def)
  then have "k \<in> fst ` set (mkRow hdrs r)"
    by (auto intro: rev_image_eqI)
  then have k: "Some k \<in> set hdrs" "k \<noteq> proto_name"
    by (simp_all add: mkRow_keys)
  from last_occurrence [OF k(1)] obtain i where
    i: "i < length hdrs" "hdrs ! i = Some k" "Some k \<notin> set (drop (Suc i) hdrs)"
    by blast
  have "map_of (mkRow hdrs r) k = Some v"
    using kv(1) mkRow_distinct [of hdrs r] by simp
  with mkRow_own [OF i(1,2) k(2) i(3), of r] kv(2) have "truthy (cellAt r i)"
    by (auto split: if_splits)
  with i k(2) show "\<exists>i h. i < length hdrs \<and> hdrs ! i = Some h \<and> h \<noteq> proto_name \<and>
      Some h \<notin> set (drop (Suc i) hdrs) \<and> truthy (cellAt r i)"
    by blast
next
  assume "\<exists>i h. i < length hdrs \<and> hdrs ! i = Some h \<and> h \<noteq> proto_name \<and>
      Some h \<notin> set (drop (Suc i) hdrs) \<and> truthy (cellAt r i)"
  then obtain i h where i: "i < length hdrs" "hdrs ! i = Some h" "h \<noteq> proto_name"
      "Some h \<notin> set (drop (Suc i) hdrs)" and t: "truthy (cellAt r i)"
    by blast
  have "map_of (mkRow hdrs r) h = Some (cellAt r i)"
    using mkRow_own [OF i, of r] t by simp
  then have "(h, cellAt r i) \<in> set (mkRow hdrs r)"
    by (rule map_of_SomeD)
  then have "cellAt r i \<in> set (obj_values (mkRow hdrs r))"
    by (auto simp: obj_values_def intro: rev_image_eqI)
  moreover have "cellAt r i \<noteq> JStr []"
    using t by auto
  ultimately show "\<exists>v\<in>set (obj_values (mkRow hdrs r)). v \<noteq> JStr []"
    by auto
qed


lemma mkRow_all_falsy:
  assumes "\<And>i. \<not> truthy (cellAt r i)"
  shows "\<not> (\<exists>v\<in>set (obj_values (mkRow hdrs r)). v \<noteq> JStr [])"
  unfolding mkRow_kept_iff using assms by blast

lemma mkRow_cong:
  "(\<And>j. j < length hdrs \<Longrightarrow> js_or (cellAt r j) (JStr []) = js_or (cellAt r' j) (JStr [])) \<Longrightarrow>
   mkRow hdrs r = mkRow hdrs r'"
  unfolding mkRow_def by (rule fillRow_cong) simp

lemma cellAt_take: "j < n \<Longrightarrow> cellAt (take n r) j = cellAt r j"
  by (simp add: cellAt_def)

lemma mkRow_take: "mkRow hdrs (take (length hdrs) r) = mkRow hdrs r"
  by (rule mkRow_cong) (simp add: cellAt_take)

lemma headers_loadExcelFile:
  "headers (loadExcelFile H (Inr (first # rest)) st) =
     map (map_option (\<lambda>h. trim (toString H (js_or h (JStr []))))) first"
  by (simp add: loadExcelFile_def Let_def)

lemma allData_loadExcelFile:
  "allData (loadExcelFile H (Inr (first # rest)) st) =
     filter (\<lambda>row. \<exists>v\<in>set (obj_values row). v \<noteq> JStr [])
       (map (mkRow (map (map_option (\<lambda>h. trim (toString H (js_or h (JStr []))))) first)) rest)"
  by (simp add: loadExcelFile_def Let_def list_ex_iff)

lemma loadExcelFile_normalized: "normalized (loadExcelFile H (Inr (first # rest)) st)"
proof -
  let ?st = "loadExcelFile H (Inr (first # rest)) st"
  show ?thesis
    unfolding normalized_def
  proof (intro ballI conjI)
    fix d
    assume "d \<in> set (allData ?st)"
    then obtain r where d: "d = mkRow (headers ?st) r"
      unfolding allData_loadExcelFile headers_loadExcelFile by auto
    show "distinct (map fst d)"
      unfolding d by (rule mkRow_distinct)
    show "fst ` set d = {h. Some h \<in> set (headers ?st) \<and> h \<noteq> proto_name}"
      unfolding d by (rule mkRow_keys)
    show "v = JStr [] \<or> truthy v" if "v \<in> set (obj_values d)" for v
      using that unfolding d by (rule mkRow_value_cases)
  qed
qed

lemma lex_lt_irrefl: "\<not> lex_lt s s"
  by (induction s) auto

lemma lex_lt_trans: "lex_lt s t \<Longrightarrow> lex_lt t u \<Longrightarrow> lex_lt s u"
proof (induction s t arbitrary: u rule: lex_lt.induct)
  case (2 d t)
  then show ?case by (cases u) auto
next
  case (4 c s d t)
  then show ?case by (cases u) auto
qed auto

lemma lex_lt_total: "\<not> lex_lt s t \<Longrightarrow> \<not> lex_lt t s \<Longrightarrow> s = t"
  by (induction s t rule: lex_lt.induct) auto

lemma lex_lt_asym: "lex_lt s t \<Longrightarrow> \<not> lex_lt t s"
  using lex_lt_trans lex_lt_irrefl by blast


lemma default_compare_lt: "default_compare H x y < 0 \<longleftrightarrow> str_lt (toString H x) (toString H y)"
  by (auto simp: default_compare_def str_lt_def)

lemma default_compare_gt: "default_compare H x y > 0 \<longleftrightarrow> str_lt (toString H y) (toString H x)"
  using lex_lt_asym by (auto simp: default_compare_def str_lt_def)

lemma default_compare_eq: "default_compare H x y = 0 \<longleftrightarrow> toString H x = toString H y"
  by (auto simp: default_compare_def str_lt_def lex_lt_irrefl dest: lex_lt_total)

lemma default_compare_consistent: "consistent_comparator (default_compare H) xs"
  unfolding consistent_comparator_def default_compare_lt default_compare_gt default_compare_eq str_lt_def
  using lex_lt_trans by auto

lemma set_insert_by: "set (insert_by cmp x ys) = insert x (set ys)"
  by (induction ys) auto

lemma mset_insert_by: "mset (insert_by cmp x ys) = add_mset x (mset ys)"
  by (induction ys) auto


lemma mset_sort_by: "mset (sort_by cmp xs) = mset xs"
  by (induction xs) (auto simp: sort_by_def mset_insert_by)

lemma set_sort_by: "set (sort_by cmp xs) = set xs"
  by (induction xs) (auto simp: sort_by_def set_insert_by)




lemma filter_insert_by_neg: "\<not> P x \<Longrightarrow> filter P (insert_by cmp x ys) = filter P ys"
  by (induction ys) auto

lemma filter_insert_by_pos:
  "P x \<Longrightarrow> (\<And>b. b \<in> set ys \<Longrightarrow> P b \<Longrightarrow> cmp x b \<le> 0) \<Longrightarrow>
   filter P (insert_by cmp x ys) = x # filter P ys"
  by (induction ys) auto

lemma filter_sort_by:
  "(\<And>a b. a \<in> set xs \<Longrightarrow> b \<in> set xs \<Longrightarrow> P a \<Longrightarrow> P b \<Longrightarrow> cmp a b \<le> 0) \<Longrightarrow>
   filter P (sort_by cmp xs) = filter P xs"
proof (induction xs)
  case Nil
  then show ?case by (simp add: sort_by_def)
next
  case (Cons x xs)
  have IH: "filter P (sort_by cmp xs) = filter P xs"
    using Cons by auto
  show ?case
  proof (cases "P x")
    case True
    have "filter P (insert_by cmp x (sort_by cmp xs)) = x # filter P (sort_by cmp xs)"
      using True Cons.prems by (intro filter_insert_by_pos) (auto simp: set_sort_by)
    with True IH show ?thesis by (simp add: sort_by_def)
  next
    case False
    with IH show ?thesis by (simp add: sort_by_def filter_insert_by_neg)
  qed
qed

lemma Array_sort_sort_by: "Array_sort cmp xs (sort_by cmp xs)"
  by (simp add: Array_sort_def mset_sort_by)

lemma Array_sort_consistent:
  "consistent_comparator cmp xs \<Longrightarrow> Array_sort cmp xs ys \<longleftrightarrow> ys = sort_by cmp xs"
  by (auto simp: Array_sort_def mset_sort_by)






lemma num_lt_NaN [simp]: "\<not> num_lt NaN x" "\<not> num_lt x NaN"
  by (cases x; simp)+

lemma num_lt_trans: "num_lt x y \<Longrightarrow> num_lt y z \<Longrightarrow> num_lt x z"
  by (cases x; cases y; cases z; simp)

lemma num_lt_irrefl: "\<not> num_lt x x"
  by (cases x; simp)

lemma num_lt_total: "x \<noteq> NaN \<Longrightarrow> y \<noteq> NaN \<Longrightarrow> \<not> num_lt x y \<Longrightarrow> \<not> num_lt y x \<Longrightarrow> x = y"
  by (cases x; cases y; simp)

lemma Number_toPrimitive: "Number (toPrimitive v) = Number v"
  by (cases v) simp_all

lemma toString_toPrimitive: "toPrimitive v = JStr s \<Longrightarrow> toString H v = s"
  by (cases v) simp_all

lemma js_lt_both_strings:
  "toPrimitive va = JStr s \<Longrightarrow> toPrimitive vb = JStr t \<Longrightarrow> js_lt va vb = lex_lt s t"
  by (simp add: js_lt_def str_lt_def)

lemma js_lt_not_both_strings:
  "\<not> (\<exists>s t. toPrimitive va = JStr s \<and> toPrimitive vb = JStr t) \<Longrightarrow>
   js_lt va vb = num_lt (Number va) (Number vb)"
  by (cases va; cases vb; simp add: js_lt_def)

lemma compare_numeric:
  "0 \<le> sortCol st \<Longrightarrow> \<not> isNaN (obj_get H a (sortKey st)) \<Longrightarrow> \<not> isNaN (obj_get H b (sortKey st)) \<Longrightarrow>
   compare H st a b = outcome (sortAsc st)
     (num_lt (Number (obj_get H a (sortKey st))) (Number (obj_get H b (sortKey st))))
     (num_lt (Number (obj_get H b (sortKey st))) (Number (obj_get H a (sortKey st))))"
  by (simp add: compare_def Let_def)

lemma compare_text:
  "0 \<le> sortCol st \<Longrightarrow> isNaN (obj_get H a (sortKey st)) \<or> isNaN (obj_get H b (sortKey st)) \<Longrightarrow>
   toPrimitive (obj_get H a (sortKey st)) = JStr s \<Longrightarrow>
   toPrimitive (obj_get H b (sortKey st)) = JStr t \<Longrightarrow>
   compare H st a b = outcome (sortAsc st) (lex_lt s t) (lex_lt t s)"
  by (auto simp: compare_def Let_def js_lt_both_strings)

lemma compare_mixed:
  "0 \<le> sortCol st \<Longrightarrow> isNaN (obj_get H a (sortKey st)) \<or> isNaN (obj_get H b (sortKey st)) \<Longrightarrow>
   \<not> (\<exists>s t. toPrimitive (obj_get H a (sortKey st)) = JStr s \<and>
        toPrimitive (obj_get H b (sortKey st)) = JStr t) \<Longrightarrow>
   compare H st a b = 0"
  by (auto simp: compare_def Let_def js_lt_not_both_strings outcome_def isNaN_def)

lemma high_surrogate: "0xD800 \<le> c \<Longrightarrow> c \<le> 0xDBFF \<Longrightarrow> isSurrogate (c :: 16 word)"
  by (simp add: isSurrogate_def word_le_nat_alt)

lemma code_points_plain:
  "list_all (\<lambda>c. \<not> isSurrogate c) s \<Longrightarrow> code_points s = map uint s"
proof (induction s rule: code_points.induct)
  case (3 c d s)
  from "3.prems" have "\<not> isSurrogate c" and rest: "list_all (\<lambda>c. \<not> isSurrogate c) (d # s)"
    by simp_all
  then have no: "\<not> (0xD800 \<le> c \<and> c \<le> 0xDBFF \<and> 0xDC00 \<le> d \<and> d \<le> 0xDFFF)"
    using high_surrogate by blast
  then have "code_points (c # d # s) = uint c # code_points (d # s)"
    by (simp only: code_points.simps if_False)
  also have "code_points (d # s) = map uint (d # s)"
    using "3.IH" (2) [OF no rest] .
  finally show ?case by simp
qed simp_all

lemma lex_lt_map_uint: "lex_lt (map uint s) (map uint t) = lex_lt s (t :: 16 word list)"
proof (induction s t rule: lex_lt.induct)
  case (4 c s d t)
  have "uint c = uint d \<longleftrightarrow> c = d"
    using word_uint_eq_iff [of c d] by blast
  with 4 show ?case
    by (simp add: word_less_def)
qed simp_all

lemma codepoint_lt_plain:
  "list_all (\<lambda>c. \<not> isSurrogate c) s \<Longrightarrow> list_all (\<lambda>c. \<not> isSurrogate c) t \<Longrightarrow>
   codepoint_lt s t = lex_lt s t"
  by (simp add: codepoint_lt_def code_points_plain lex_lt_map_uint)

lemma compare_unsorted_consistent:
  "sortCol st < 0 \<Longrightarrow> consistent_comparator (compare H st) rows"
  by (simp add: consistent_comparator_def compare_def)

lemma consistent_by_key:
  assumes cmp: "\<And>a b. a \<in> set rows \<Longrightarrow> b \<in> set rows \<Longrightarrow>
      cmp a b = outcome asc (lt (k a) (k b)) (lt (k b) (k a))"
    and irrefl: "\<And>x. \<not> lt x x"
    and trans: "\<And>x y z. lt x y \<Longrightarrow> lt y z \<Longrightarrow> lt x z"
    and total: "\<And>a b. a \<in> set rows \<Longrightarrow> b \<in> set rows \<Longrightarrow>
      \<not> lt (k a) (k b) \<Longrightarrow> \<not> lt (k b) (k a) \<Longrightarrow> k a = k b"
  shows "consistent_comparator cmp rows"
proof -
  have excl: "\<not> (lt x y \<and> lt y x)" for x y
    using irrefl trans by blast
  have zero: "cmp a b = 0 \<longleftrightarrow> k a = k b" if "a \<in> set rows" "b \<in> set rows" for a b
    using that total [of a b] irrefl excl [of "k a" "k b"] by (auto simp: cmp outcome_def)
  have neg: "cmp a b < 0 \<longleftrightarrow> (if asc then lt (k a) (k b) else lt (k b) (k a))"
    if "a \<in> set rows" "b \<in> set rows" for a b
    using that excl [of "k a" "k b"] by (auto simp: cmp outcome_def)
  have pos: "cmp a b > 0 \<longleftrightarrow> (if asc then lt (k b) (k a) else lt (k a) (k b))"
    if "a \<in> set rows" "b \<in> set rows" for a b
    using that excl [of "k a" "k b"] by (auto simp: cmp outcome_def)
  show ?thesis
    unfolding consistent_comparator_def
  proof (intro ballI conjI impI)
    fix a b c
    assume abc: "a \<in> set rows" "b \<in> set rows" "c \<in> set rows"
    show "cmp a a = 0" using abc by (simp add: zero)
    show "cmp b a = 0" if "cmp a b = 0" using that abc by (simp add: zero)
    show "cmp a c = 0" if "cmp a b = 0 \<and> cmp b c = 0" using that abc by (simp add: zero)
    show "cmp a c < 0" if "cmp a b < 0 \<and> cmp b c < 0"
      using that abc trans [of "k a" "k b" "k c"] trans [of "k c" "k b" "k a"]
      by (simp add: neg split: if_splits)
    show "0 < cmp a c" if "0 < cmp a b \<and> 0 < cmp b c"
      using that abc trans [of "k a" "k b" "k c"] trans [of "k c" "k b" "k a"]
      by (simp add: pos split: if_splits)
  qed
qed

lemma compare_numeric_consistent:
  assumes "\<forall>r\<in>set rows. \<not> isNaN (obj_get H r (sortKey st))"
  shows "consistent_comparator (compare H st) rows"
proof (cases "sortCol st < 0")
  case True
  then show ?thesis by (rule compare_unsorted_consistent)
next
  case False
  show ?thesis
  proof (rule consistent_by_key [where lt = num_lt and asc = "sortAsc st"
        and k = "\<lambda>r. Number (obj_get H r (sortKey st))"])
    show "compare H st a b = outcome (sortAsc st)
            (num_lt (Number (obj_get H a (sortKey st))) (Number (obj_get H b (sortKey st))))
            (num_lt (Number (obj_get H b (sortKey st))) (Number (obj_get H a (sortKey st))))"
      if "a \<in> set rows" "b \<in> set rows" for a b
      using compare_numeric [of st H a b] False assms that by simp
    show "\<not> num_lt x x" for x by (rule num_lt_irrefl)
    show "num_lt x y \<Longrightarrow> num_lt y z \<Longrightarrow> num_lt x z" for x y z by (rule num_lt_trans)
    show "Number (obj_get H a (sortKey st)) = Number (obj_get H b (sortKey st))"
      if "a \<in> set rows" "b \<in> set rows"
        "\<not> num_lt (Number (obj_get H a (sortKey st))) (Number (obj_get H b (sortKey st)))"
        "\<not> num_lt (Number (obj_get H b (sortKey st))) (Number (obj_get H a (sortKey st)))" for a b
      using that assms by (intro num_lt_total) (auto simp: isNaN_def)
  qed
qed

lemma compare_text_consistent:
  assumes "\<forall>r\<in>set rows. \<exists>s. obj_get H r (sortKey st) = JStr s \<and> isNaN (JStr s)"
  shows "consistent_comparator (compare H st) rows"
proof (cases "sortCol st < 0")
  case True
  then show ?thesis by (rule compare_unsorted_consistent)
next
  case False
  show ?thesis
  proof (rule consistent_by_key [where lt = lex_lt and asc = "sortAsc st"
        and k = "\<lambda>r. toString H (obj_get H r (sortKey st))"])
    show "compare H st a b = outcome (sortAsc st)
            (lex_lt (toString H (obj_get H a (sortKey st))) (toString H (obj_get H b (sortKey st))))
            (lex_lt (toString H (obj_get H b (sortKey st))) (toString H (obj_get H a (sortKey st))))"
      if "a \<in> set rows" "b \<in> set rows" for a b
    proof -
      from assms that obtain s where s: "obj_get H a (sortKey st) = JStr s" "isNaN (JStr s)"
        by blast
      from assms that obtain t where t: "obj_get H b (sortKey st) = JStr t"
        by blast
      have "compare H st a b = outcome (sortAsc st) (lex_lt s t) (lex_lt t s)"
      proof (rule compare_text)
        show "0 \<le> sortCol st" using False by simp
        show "isNaN (obj_get H a (sortKey st)) \<or> isNaN (obj_get H b (sortKey st))"
          using s by simp
        show "toPrimitive (obj_get H a (sortKey st)) = JStr s"
          using s by simp
        show "toPrimitive (obj_get H b (sortKey st)) = JStr t"
          using t by simp
      qed
      then show ?thesis
        by (simp add: s t)
    qed
    show "\<not> lex_lt x x" for x :: jsstring by (rule lex_lt_irrefl)
    show "lex_lt x y \<Longrightarrow> lex_lt y z \<Longrightarrow> lex_lt x z" for x y z :: jsstring by (rule lex_lt_trans)
    show "toString H (obj_get H a (sortKey st)) = toString H (obj_get H b (sortKey st))"
      if "\<not> lex_lt (toString H (obj_get H a (sortKey st))) (toString H (obj_get H b (sortKey st)))"
        "\<not> lex_lt (toString H (obj_get H b (sortKey st))) (toString H (obj_get H a (sortKey st)))" for a b
      using that by (rule lex_lt_total)
  qed
qed





lemma players_value:
  "players = \<lparr>allData = [alice, bob],
     headers = [Some (str ''Name''), Some (str ''Role''), Some (str ''Birthday'')],
     search = [], roleFilter = [], teamFilter = [], regionFilter = [], sortCol = - 1,
     sortAsc = True, error = None, loading = False\<rparr>"
  by code_simp

lemma ragged_headers:
  "map (map_option (\<lambda>h. trim (toString example_host (js_or h (JStr []))))) (hd ragged_sheet) =
     [Some (str ''Name''), Some (str ''Role'')]"
  by code_simp

lemma ragged_rows:
  "allData ragged =
     [[(str ''Name'', JStr (str ''Alice'')), (str ''Role'', JStr (str ''Top''))],
      [(str ''Name'', JStr (str '' '')), (str ''Role'', JStr [])],
      [(str ''Name'', JStr (str ''Carl'')), (str ''Role'', JNum 7)],
      [(str ''Name'', JStr []), (str ''Role'', JStr (str ''Mid''))]]"
  by code_simp

lemma scores_value:
  "scores = \<lparr>allData = [[(str ''Name'', JStr (str ''Ann'')), (str ''Score'', JStr [])]],
     headers = [Some (str ''Name''), Some (str ''Score'')],
     search = [], roleFilter = [], teamFilter = [], regionFilter = [], sortCol = - 1,
     sortAsc = True, error = None, loading = False\<rparr>"
  by code_simp


lemma gap_value:
  "gap = \<lparr>allData = [[(str ''Name'', JStr (str ''Ann'')), (str ''Team'', JStr (str ''Red''))]],
     headers = [Some (str ''Name''), None, Some (str ''Team'')],
     search = [], roleFilter = [], teamFilter = [], regionFilter = [], sortCol = - 1,
     sortAsc = True, error = None, loading = False\<rparr>"
  by code_simp

lemma fillRow_zip_spec:
  assumes "None \<notin> set hs" "Some proto_name \<notin> set hs"
    and "\<And>c. Some c \<in> set r \<Longrightarrow> c = JStr [] \<or> truthy c"
  shows "fillRow r i hs obj = zip_spec r i (labels hs) obj"
  using assms(1,2)
proof (induction hs arbitrary: i obj)
  case Nil
  then show ?case by (simp add: labels_def)
next
  case (Cons a hs)
  from Cons.prems obtain h where a: "a = Some h" "h \<noteq> proto_name"
    by (cases a) auto
  have cell: "js_or (cellAt r i) (JStr []) = cell_spec r i"
  proof (cases "i < length r")
    case True
    show ?thesis
    proof (cases "r ! i")
      case None
      with True show ?thesis by (simp add: cellAt_def cell_spec_def js_or_def)
    next
      case (Some c)
      with True have "Some c \<in> set r"
        by (metis nth_mem)
      from assms(3) [OF this] Some True show ?thesis
        by (auto simp: cellAt_def cell_spec_def js_or_def)
    qed
  next
    case False
    then show ?thesis by (simp add: cellAt_def cell_spec_def js_or_def)
  qed
  have "fillRow r (Suc i) hs obj' = zip_spec r (Suc i) (labels hs) obj'" for obj'
    using Cons.prems by (intro Cons.IH) auto
  then show ?case
    using a cell by (simp add: labels_def obj_set_def)
qed

lemma rows_spec_agree:
  assumes "None \<notin> set hdrs" "Some proto_name \<notin> set hdrs"
    and "\<forall>r\<in>set rest. \<forall>c. Some c \<in> set r \<longrightarrow> c = JStr [] \<or> truthy c"
  shows "filter (\<lambda>row. \<exists>v\<in>set (obj_values row). v \<noteq> JStr []) (map (mkRow hdrs) rest) =
     rows_spec (labels hdrs) rest"
proof -
  have "mkRow hdrs r = zip_spec r 0 (labels hdrs) []" if "r \<in> set rest" for r
    unfolding mkRow_def using assms that by (intro fillRow_zip_spec) auto
  then have "map (mkRow hdrs) rest = map (\<lambda>r. zip_spec r 0 (labels hdrs) []) rest"
    by simp
  then show ?thesis
    unfolding rows_spec_def list_ex_iff by (rule arg_cong)
qed

section \<open>Properties of loading\<close>

text \<open>
  Claim C3, as amended. For a grid with at least one row, the headers are the trimmed texts
  of the first row, a hole of the first row staying a hole. Every later row becomes a Row
  with one entry for every header label other than \<^verbatim>\<open>__proto__\<close>; a hole of the header row
  gives no entry. The entry of a label holds the cell at the position of the label's last
  occurrence, as given when the cell is truthy (a text is not trimmed) and as the empty
  text when the cell is missing or falsy; cells beyond the headers are ignored. The rows
  kept, in source order, are those with some truthy cell under the last occurrence of such a
  label; a row without a truthy cell never appears. On a sheet without header holes and
  without the label \<^verbatim>\<open>__proto__\<close>, whose cells are all texts or truthy, this is the
  ingestion of the specification.
\<close>

theorem loadExcelFile_rows:
  assumes "hdrs = map (map_option (\<lambda>h. trim (toString H (js_or h (JStr []))))) first"
    and "st' = loadExcelFile H (Inr (first # rest)) st"
  shows "headers st' = hdrs \<and>
     allData st' =
       filter (\<lambda>row. \<exists>v\<in>set (obj_values row). v \<noteq> JStr []) (map (mkRow hdrs) rest) \<and>
     subseq (allData st') (map (mkRow hdrs) rest) \<and>
     (\<forall>r. distinct (map fst (mkRow hdrs r)) \<and>
        fst ` set (mkRow hdrs r) = {h. Some h \<in> set hdrs \<and> h \<noteq> proto_name} \<and>
        mkRow hdrs (take (length hdrs) r) = mkRow hdrs r \<and>
        (\<forall>i h. i < length hdrs \<and> hdrs ! i = Some h \<and> h \<noteq> proto_name \<and>
             Some h \<notin> set (drop (Suc i) hdrs) \<longrightarrow>
           obj_get H (mkRow hdrs r) h = (if truthy (cellAt r i) then cellAt r i else JStr [])) \<and>
        ((\<exists>v\<in>set (obj_values (mkRow hdrs r)). v \<noteq> JStr []) \<longleftrightarrow>
           (\<exists>i h. i < length hdrs \<and> hdrs ! i = Some h \<and> h \<noteq> proto_name \<and>
              Some h \<notin> set (drop (Suc i) hdrs) \<and> truthy (cellAt r i))) \<and>
        ((\<forall>i. \<not> truthy (cellAt r i)) \<longrightarrow> mkRow hdrs r \<notin> set (allData st'))) \<and>
     (None \<notin> set hdrs \<and> Some proto_name \<notin> set hdrs \<and>
      (\<forall>r\<in>set rest. \<forall>c. Some c \<in> set r \<longrightarrow> c = JStr [] \<or> truthy c) \<longrightarrow>
        allData st' = rows_spec (labels hdrs) rest)"
proof -
  have rows: "allData st' =
      filter (\<lambda>row. \<exists>v\<in>set (obj_values row). v \<noteq> JStr []) (map (mkRow hdrs) rest)"
    unfolding assms by (rule allData_loadExcelFile)
  have hd: "headers st' = hdrs"
    unfolding assms by (rule headers_loadExcelFile)
  have sub: "subseq (allData st') (map (mkRow hdrs) rest)"
    unfolding rows by simp
  have get: "obj_get H (mkRow hdrs r) h = (if truthy (cellAt r i) then cellAt r i else JStr [])"
    if "i < length hdrs \<and> hdrs ! i = Some h \<and> h \<noteq> proto_name \<and>
      Some h \<notin> set (drop (Suc i) hdrs)" for r i h
    using that by (intro mkRow_get) blast+
  have gone: "mkRow hdrs r \<notin> set (allData st')" if "\<forall>i. \<not> truthy (cellAt r i)" for r
    using mkRow_all_falsy [of r hdrs] that by (simp add: rows)
  have agree: "allData st' = rows_spec (labels hdrs) rest"
    if "None \<notin> set hdrs \<and> Some proto_name \<notin> set hdrs \<and>
      (\<forall>r\<in>set rest. \<forall>c. Some c \<in> set r \<longrightarrow> c = JStr [] \<or> truthy c)"
    unfolding rows using that by (intro rows_spec_agree) blast+
  have each: "distinct (map fst (mkRow hdrs r)) \<and>
        fst ` set (mkRow hdrs r) = {h. Some h \<in> set hdrs \<and> h \<noteq> proto_name} \<and>
        mkRow hdrs (take (length hdrs) r) = mkRow hdrs r \<and>
        (\<forall>i h. i < length hdrs \<and> hdrs ! i = Some h \<and> h \<noteq> proto_name \<and>
             Some h \<notin> set (drop (Suc i) hdrs) \<longrightarrow>
           obj_get H (mkRow hdrs r) h = (if truthy (cellAt r i) then cellAt r i else JStr [])) \<and>
        ((\<exists>v\<in>set (obj_values (mkRow hdrs r)). v \<noteq> JStr []) \<longleftrightarrow>
           (\<exists>i h. i < length hdrs \<and> hdrs ! i = Some h \<and> h \<noteq> proto_name \<and>
              Some h \<notin> set (drop (Suc i) hdrs) \<and> truthy (cellAt r i))) \<and>
        ((\<forall>i. \<not> truthy (cellAt r i)) \<longrightarrow> mkRow hdrs r \<notin> set (allData st'))" for r
    using mkRow_distinct [of hdrs r] mkRow_keys [of hdrs r] mkRow_take [of hdrs r]
      get [of _ _ r] mkRow_kept_iff [of hdrs r] gone [of r]
    by (intro conjI allI impI) blast+
  show ?thesis
  proof (intro conjI)
    show "\<forall>r. distinct (map fst (mkRow hdrs r)) \<and>
        fst ` set (mkRow hdrs r) = {h. Some h \<in> set hdrs \<and> h \<noteq> proto_name} \<and>
        mkRow hdrs (take (length hdrs) r) = mkRow hdrs r \<and>
        (\<forall>i h. i < length hdrs \<and> hdrs ! i = Some h \<and> h \<noteq> proto_name \<and>
             Some h \<notin> set (drop (Suc i) hdrs) \<longrightarrow>
           obj_get H (mkRow hdrs r) h = (if truthy (cellAt r i) then cellAt r i else JStr [])) \<and>
        ((\<exists>v\<in>set (obj_values (mkRow hdrs r)). v \<noteq> JStr []) \<longleftrightarrow>
           (\<exists>i h. i < length hdrs \<and> hdrs ! i = Some h \<and> h \<noteq> proto_name \<and>
              Some h \<notin> set (drop (Suc i) hdrs) \<and> truthy (cellAt r i))) \<and>
        ((\<forall>i. \<not> truthy (cellAt r i)) \<longrightarrow> mkRow hdrs r \<notin> set (allData st'))"
      using each by (rule allI)
    show "None \<notin> set hdrs \<and> Some proto_name \<notin> set hdrs \<and>
      (\<forall>r\<in>set rest. \<forall>c. Some c \<in> set r \<longrightarrow> c = JStr [] \<or> truthy c) \<longrightarrow>
        allData st' = rows_spec (labels hdrs) rest"
      using agree by (rule impI)
  qed (fact hd rows sub)+
qed

theorem loadExcelFile_rows_witness:
  "headers ragged = [Some (str ''Name''), Some (str ''Role'')] \<and>
   allData ragged =
     [[(str ''Name'', JStr (str ''Alice'')), (str ''Role'', JStr (str ''Top''))],
      [(str ''Name'', JStr (str '' '')), (str ''Role'', JStr [])],
      [(str ''Name'', JStr (str ''Carl'')), (str ''Role'', JNum 7)],
      [(str ''Name'', JStr []), (str ''Role'', JStr (str ''Mid''))]] \<and>
   subseq (allData ragged)
     (map (mkRow [Some (str ''Name''), Some (str ''Role'')]) (tl ragged_sheet)) \<and>
   obj_get example_host
     (mkRow [Some (str ''Name''), Some (str ''Role'')]
        [Some (JStr (str ''Carl'')), Some (JNum 7), Some (JStr (str ''extra''))]) (str ''Role'') =
     JNum 7 \<and>
   obj_get example_host
     (mkRow [Some (str ''Name''), Some (str ''Role'')] [Some (JStr (str '' ''))]) (str ''Role'') =
     JStr [] \<and>
   mkRow [Some (str ''Name''), Some (str ''Role'')] [Some (JStr []), Some (JStr [])]
     \<notin> set (allData ragged) \<and>
   mkRow [Some (str ''Name''), Some (str ''Role'')] [] \<notin> set (allData ragged) \<and>
   allData players = rows_spec (labels (headers players)) (tl players_sheet)"
proof -
  let ?hdrs = "[Some (str ''Name''), Some (str ''Role'')]"
  have st: "ragged = loadExcelFile example_host (Inr (hd ragged_sheet # tl ragged_sheet)) initial"
    by (simp add: ragged_def ragged_sheet_def)
  note T = loadExcelFile_rows [OF ragged_headers [symmetric] st]
  have ne: "str ''Role'' \<noteq> proto_name" "str ''Name'' \<noteq> str ''Role''"
    by (simp_all add: str_def proto_name_def)
  have h: "headers ragged = ?hdrs"
    using T by (rule conjunct1)
  have s: "subseq (allData ragged) (map (mkRow ?hdrs) (tl ragged_sheet))"
    using T [THEN conjunct2, THEN conjunct2, THEN conjunct1] .
  note R = T [THEN conjunct2, THEN conjunct2, THEN conjunct2, THEN conjunct1, THEN spec]
  have pos: "(1::nat) < length ?hdrs \<and> ?hdrs ! 1 = Some (str ''Role'') \<and> str ''Role'' \<noteq> proto_name \<and>
      Some (str ''Role'') \<notin> set (drop (Suc 1) ?hdrs)"
    using ne by simp
  note G = R [THEN conjunct2, THEN conjunct2, THEN conjunct2, THEN conjunct1, THEN spec,
      THEN spec, THEN mp, OF pos]
  have carl: "obj_get example_host
      (mkRow ?hdrs [Some (JStr (str ''Carl'')), Some (JNum 7), Some (JStr (str ''extra''))])
      (str ''Role'') = JNum 7"
    using G [of "[Some (JStr (str ''Carl'')), Some (JNum 7), Some (JStr (str ''extra''))]"]
    by (simp add: cellAt_def)
  have blank: "obj_get example_host (mkRow ?hdrs [Some (JStr (str '' ''))]) (str ''Role'') = JStr []"
    using G [of "[Some (JStr (str '' ''))]"] by (simp add: cellAt_def)
  note D = R [THEN conjunct2, THEN conjunct2, THEN conjunct2, THEN conjunct2, THEN conjunct2,
      THEN mp]
  have e1: "\<forall>i. \<not> truthy (cellAt [Some (JStr []), Some (JStr [])] i)"
    by (simp add: cellAt_def nth_Cons split: nat.splits)
  have e2: "\<forall>i. \<not> truthy (cellAt [] i)"
    by (simp add: cellAt_def)
  note d1 = D [OF e1] and d2 = D [OF e2]
  have pl: "players = loadExcelFile example_host (Inr (hd players_sheet # tl players_sheet)) initial"
    by (simp add: players_def players_sheet_def grid_def)
  have ph: "headers players =
      map (map_option (\<lambda>h. trim (toString example_host (js_or h (JStr []))))) (hd players_sheet)"
    unfolding pl by (rule headers_loadExcelFile)
  have cond: "None \<notin> set (headers players) \<and> Some proto_name \<notin> set (headers players) \<and>
      (\<forall>r\<in>set (tl players_sheet). \<forall>c. Some c \<in> set r \<longrightarrow> c = JStr [] \<or> truthy c)"
    by (auto simp: players_value players_sheet_def grid_def proto_name_def str_def)
  note agree = loadExcelFile_rows [OF ph pl, THEN conjunct2, THEN conjunct2, THEN conjunct2,
      THEN conjunct2, THEN mp, OF cond]
  from h s carl blank d1 d2 agree ragged_rows show ?thesis
    by (intro conjI)
qed

text \<open>
  Claim C3 as stated zips the cells as given against the headers and keeps a row that has a
  value other than the empty text. In a sheet of names and scores, the score 0 of Ann is
  loaded as the empty text, and the row of two zeros is dropped. In a sheet whose second
  header cell is empty, the rows have no entry for the second column, and the row filled
  there only is dropped.
\<close>

theorem zero_cells_are_not_kept:
  "tl scores_sheet = [[Some (JStr (str ''Ann'')), Some (JNum 0)], [Some (JNum 0), Some (JNum 0)]] \<and>
   rows_spec (labels (headers scores)) (tl scores_sheet) =
     [[(str ''Name'', JStr (str ''Ann'')), (str ''Score'', JNum 0)],
      [(str ''Name'', JNum 0), (str ''Score'', JNum 0)]] \<and>
   allData scores = [[(str ''Name'', JStr (str ''Ann'')), (str ''Score'', JStr [])]] \<and>
   labels (headers gap) = [str ''Name'', [], str ''Team''] \<and>
   rows_spec (labels (headers gap)) (tl gap_sheet) =
     [[(str ''Name'', JStr (str ''Ann'')), ([], JStr (str ''x'')), (str ''Team'', JStr (str ''Red''))],
      [(str ''Name'', JStr []), ([], JStr (str ''y'')), (str ''Team'', JStr [])]] \<and>
   allData gap = [[(str ''Name'', JStr (str ''Ann'')), (str ''Team'', JStr (str ''Red''))]]"
  unfolding scores_value gap_value by code_simp



text \<open>
  Claim C4, as amended. The empty grid raises no error: loading leaves headers, rows and
  the error field as they were and only ends the loading state. A grid with at least one
  row sets the headers and the rows. The error field changes only when fetching or decoding
  the workbook threw.
\<close>

theorem loadExcelFile_empty_grid_no_error:
  "loadExcelFile H (Inr []) st = st\<lparr> loading := False \<rparr> \<and>
   error (loadExcelFile H (Inr json) st) = error st \<and>
   \<not> loading (loadExcelFile H fetched st) \<and>
   (json \<noteq> [] \<longrightarrow>
      headers (loadExcelFile H (Inr json) st) =
        map (map_option (\<lambda>h. trim (toString H (js_or h (JStr []))))) (hd json) \<and>
      allData (loadExcelFile H (Inr json) st) =
        filter (\<lambda>row. \<exists>v\<in>set (obj_values row). v \<noteq> JStr [])
          (map (mkRow (headers (loadExcelFile H (Inr json) st))) (tl json))) \<and>
   (error (loadExcelFile H fetched st) \<noteq> error st \<longrightarrow> (\<exists>message. fetched = Inl message))"
  by (cases fetched; cases json) (auto simp: loadExcelFile_def Let_def list_ex_iff split: list.splits)

theorem loadExcelFile_empty_grid_no_error_witness:
  "headers (loadExcelFile example_host (Inr players_sheet) initial) =
     [Some (str ''Name''), Some (str ''Role''), Some (str ''Birthday'')] \<and>
   error (loadExcelFile example_host (Inr players_sheet) initial) = None \<and>
   loadExcelFile example_host (Inr []) initial = initial\<lparr> loading := False \<rparr> \<and>
   error (loadExcelFile example_host (Inl (str ''Could not load file'')) initial) =
     Some (str ''Could not load file'')"
proof -
  have "players_sheet \<noteq> []"
    by (simp add: players_sheet_def grid_def)
  moreover have "map (map_option (\<lambda>h. trim (toString example_host (js_or h (JStr []))))) (hd players_sheet) =
      [Some (str ''Name''), Some (str ''Role''), Some (str ''Birthday'')]"
    by code_simp
  moreover have "error initial = None"
    by (simp add: initial_def)
  moreover have "error (loadExcelFile example_host (Inl (str ''Could not load file'')) initial) =
      Some (str ''Could not load file'')"
    by (simp add: loadExcelFile_def)
  ultimately show ?thesis
    using loadExcelFile_empty_grid_no_error [of example_host initial players_sheet "Inr players_sheet"]
    by simp
qed

text \<open>
  Claim C4 as stated says that the empty grid fails with an error that is surfaced to the
  caller. On the initial state it leaves no error: the empty dataset is shown.
\<close>

theorem empty_grid_raises_no_error:
  "error (loadExcelFile example_host (Inr []) initial) = None \<and>
   headers (loadExcelFile example_host (Inr []) initial) = [] \<and>
   allData (loadExcelFile example_host (Inr []) initial) = [] \<and>
   \<not> loading (loadExcelFile example_host (Inr []) initial)"
  by (simp add: loadExcelFile_def initial_def)

section \<open>Properties of filtering and of the filter options\<close>

































lemma blank_header_normalized: "normalized blank_header"
  unfolding blank_header_def blank_header_sheet_def grid_def list.map
  by (rule loadExcelFile_normalized)












section \<open>Properties of sorting\<close>

lemma StringToNumber_10_9_2:
  "StringToNumber (str ''10'') = Fin 10" "StringToNumber (str ''9'') = Fin 9"
  "StringToNumber (str ''2'') = Fin 2"
  by code_simp+

lemma StringToNumber_rounds:
  "StringToNumber (str ''9007199254740993'') = Fin 9007199254740992"
  "StringToNumber (str ''9007199254740992'') = Fin 9007199254740992"
  "StringToNumber (str ''1e400'') = PosInf"
  by code_simp+

lemma Number_empty: "Number (JStr []) = Fin 0"
  by (simp add: StringToNumber_def trim_def)

lemma compare_spec_numeric:
  "\<not> isNaN va \<Longrightarrow> \<not> isNaN vb \<Longrightarrow>
   compare_spec H asc va vb =
     outcome asc (num_lt (Number va) (Number vb)) (num_lt (Number vb) (Number va))"
  by (simp add: compare_spec_def)

lemma compare_spec_text:
  "isNaN va \<or> isNaN vb \<Longrightarrow> toPrimitive va = JStr s \<Longrightarrow> toPrimitive vb = JStr t \<Longrightarrow>
   list_all (\<lambda>c. \<not> isSurrogate c) (s @ t) \<Longrightarrow>
   compare_spec H asc va vb = outcome asc (lex_lt s t) (lex_lt t s)"
  by (auto simp: compare_spec_def codepoint_lt_plain toString_toPrimitive)

lemma sort_10_9_2:
  assumes "0 \<le> sortCol st" "sortAsc st"
    and "obj_get H r10 (sortKey st) = JStr (str ''10'')"
    and "obj_get H r9 (sortKey st) = JStr (str ''9'')"
    and "obj_get H r2 (sortKey st) = JStr (str ''2'')"
  shows "Array_sort (compare H st) [r10, r9, r2] out \<longleftrightarrow> out = [r2, r9, r10]"
proof -
  have nan: "\<forall>r\<in>set [r10, r9, r2]. \<not> isNaN (obj_get H r (sortKey st))"
    using assms by (simp add: isNaN_def StringToNumber_10_9_2)
  have cmp: "compare H st a b = outcome True (num_lt (Number (obj_get H a (sortKey st)))
        (Number (obj_get H b (sortKey st))))
      (num_lt (Number (obj_get H b (sortKey st))) (Number (obj_get H a (sortKey st))))"
    if "a \<in> set [r10, r9, r2]" "b \<in> set [r10, r9, r2]" for a b
    using compare_numeric [of st H a b] nan that assms(1,2) by auto
  have "sort_by (compare H st) [r10, r9, r2] = [r2, r9, r10]"
    by (simp add: sort_by_def cmp assms StringToNumber_10_9_2 outcome_def)
  with Array_sort_consistent [OF compare_numeric_consistent [OF nan]] show ?thesis
    by simp
qed

text \<open>
  Claim C2, as amended. On a selected column two values are compared as numbers when both
  convert to a number (the empty text converts to 0): there the code agrees with the
  comparison of the specification; a numeric text converts to the nearest double.
  Otherwise two texts (an object counts as its text) are compared lexicographically by
  UTF-16 code unit, which is the specification's code-point order when neither text holds a
  surrogate, and two values that are not both texts tie. Ascending, rows holding the texts
  10, 9, 2 are sorted to 2, 9, 10.
\<close>

theorem compare_numeric_or_text:
  assumes "0 \<le> sortCol st" "va = obj_get H a (sortKey st)" "vb = obj_get H b (sortKey st)"
  shows "(\<not> isNaN va \<and> \<not> isNaN vb \<longrightarrow>
       compare H st a b =
         outcome (sortAsc st) (num_lt (Number va) (Number vb)) (num_lt (Number vb) (Number va)) \<and>
       compare H st a b = compare_spec H (sortAsc st) va vb) \<and>
     ((isNaN va \<or> isNaN vb) \<and> toPrimitive va = JStr s \<and> toPrimitive vb = JStr t \<longrightarrow>
       compare H st a b = outcome (sortAsc st) (lex_lt s t) (lex_lt t s)) \<and>
     ((isNaN va \<or> isNaN vb) \<and> toPrimitive va = JStr s \<and> toPrimitive vb = JStr t \<and>
      list_all (\<lambda>c. \<not> isSurrogate c) (s @ t) \<longrightarrow>
       compare H st a b = compare_spec H (sortAsc st) va vb) \<and>
     ((isNaN va \<or> isNaN vb) \<and> \<not> (\<exists>s t. toPrimitive va = JStr s \<and> toPrimitive vb = JStr t) \<longrightarrow>
       compare H st a b = 0) \<and>
     Number (JStr []) = Fin 0 \<and>
     (sortAsc st \<and> filteredData H st = Inr [r10, r9, r2] \<and>
      obj_get H r10 (sortKey st) = JStr (str ''10'') \<and>
      obj_get H r9 (sortKey st) = JStr (str ''9'') \<and>
      obj_get H r2 (sortKey st) = JStr (str ''2'') \<longrightarrow>
        (\<forall>out. sortedData H st out \<longleftrightarrow> out = [r2, r9, r10]))"
proof (intro conjI impI allI)
  show both_numeric: "compare H st a b =
      outcome (sortAsc st) (num_lt (Number va) (Number vb)) (num_lt (Number vb) (Number va))"
    if "\<not> isNaN va \<and> \<not> isNaN vb"
    using that assms compare_numeric [of st H a b] by auto
  show "compare H st a b = compare_spec H (sortAsc st) va vb" if "\<not> isNaN va \<and> \<not> isNaN vb"
    using that both_numeric by (auto simp: compare_spec_numeric)
  show both_text: "compare H st a b = outcome (sortAsc st) (lex_lt s t) (lex_lt t s)"
    if "(isNaN va \<or> isNaN vb) \<and> toPrimitive va = JStr s \<and> toPrimitive vb = JStr t"
    using that assms compare_text [of st H a b s t] by auto
  show "compare H st a b = compare_spec H (sortAsc st) va vb"
    if "(isNaN va \<or> isNaN vb) \<and> toPrimitive va = JStr s \<and> toPrimitive vb = JStr t \<and>
      list_all (\<lambda>c. \<not> isSurrogate c) (s @ t)"
    using that both_text compare_spec_text [of va vb s t H "sortAsc st"] by auto
  show "compare H st a b = 0"
    if "(isNaN va \<or> isNaN vb) \<and> \<not> (\<exists>s t. toPrimitive va = JStr s \<and> toPrimitive vb = JStr t)"
    using that assms compare_mixed [of st H a b] by auto
  show "Number (JStr []) = Fin 0"
    by (rule Number_empty)
  show "sortedData H st out \<longleftrightarrow> out = [r2, r9, r10]"
    if "sortAsc st \<and> filteredData H st = Inr [r10, r9, r2] \<and>
      obj_get H r10 (sortKey st) = JStr (str ''10'') \<and>
      obj_get H r9 (sortKey st) = JStr (str ''9'') \<and>
      obj_get H r2 (sortKey st) = JStr (str ''2'')" for out
    using that sort_10_9_2 [of st H r10 r9 r2 out] assms(1) by (auto simp: sortedData_def)
qed

lemma column_of_simps:
  "sortKey (column_of vs) = str ''v''" "0 \<le> sortCol (column_of vs)" "sortAsc (column_of vs)"
  by (simp_all add: column_of_def sortKey_def initial_def)

lemma column_of_rows:
  "filteredData example_host (column_of vs) = Inr (map (\<lambda>v. [(str ''v'', v)]) vs)"
proof -
  have "columnKeys example_host (column_of vs) = Inr ([], [], [])"
    unfolding columnKeys_def roleKey_def teamKey_def regionKey_def column_of_def initial_def
    by code_simp
  then show ?thesis
    by (simp add: filteredData_def column_of_def initial_def matchSearch_def)
qed

lemma obj_get_single: "obj_get H [(k, x)] k = x"
  by (simp add: obj_get_def)

lemma isNaN_abc: "isNaN (JStr (str ''abc''))"
  unfolding isNaN_def by code_simp

theorem compare_numeric_or_text_witness:
  "sortedData example_host (column_of [JStr (str ''10''), JStr (str ''9''), JStr (str ''2'')])
     [[(str ''v'', JStr (str ''2''))], [(str ''v'', JStr (str ''9''))],
      [(str ''v'', JStr (str ''10''))]] \<and>
   compare example_host (column_of []) [(str ''v'', JStr (str ''10''))] [(str ''v'', JStr (str ''9''))] = 1 \<and>
   compare example_host (column_of []) [(str ''v'', JStr (str ''abc''))] [(str ''v'', JStr (str ''abd''))] = - 1 \<and>
   compare example_host (column_of []) [(str ''v'', JNum 5)] [(str ''v'', JStr (str ''abc''))] = 0 \<and>
   compare example_host (column_of []) [(str ''v'', JStr (str ''9007199254740993''))]
     [(str ''v'', JStr (str ''9007199254740992''))] = 0 \<and>
   compare example_host (column_of []) [(str ''v'', JStr (str ''1e400''))]
     [(str ''v'', JStr (str ''9''))] = 1"
proof -
  let ?st = "column_of [JStr (str ''10''), JStr (str ''9''), JStr (str ''2'')]"
  let ?r10 = "[(str ''v'', JStr (str ''10''))]"
  let ?r9 = "[(str ''v'', JStr (str ''9''))]"
  let ?r2 = "[(str ''v'', JStr (str ''2''))]"
  have h: "sortAsc ?st \<and> filteredData example_host ?st = Inr [?r10, ?r9, ?r2] \<and>
      obj_get example_host ?r10 (sortKey ?st) = JStr (str ''10'') \<and>
      obj_get example_host ?r9 (sortKey ?st) = JStr (str ''9'') \<and>
      obj_get example_host ?r2 (sortKey ?st) = JStr (str ''2'')"
    by (simp add: column_of_simps column_of_rows obj_get_single)
  note T1 = compare_numeric_or_text [where st = ?st and H = example_host and ?r10.0 = ?r10
      and ?r9.0 = ?r9 and ?r2.0 = ?r2, OF column_of_simps(2) refl refl]
  note sorted = T1 [THEN conjunct2, THEN conjunct2, THEN conjunct2, THEN conjunct2,
      THEN conjunct2, THEN mp, OF h, THEN spec, of "[?r2, ?r9, ?r10]"]
  have 1: "sortedData example_host ?st [?r2, ?r9, ?r10]"
    using sorted by simp
  have n: "\<not> isNaN (obj_get example_host ?r10 (sortKey (column_of []))) \<and>
      \<not> isNaN (obj_get example_host ?r9 (sortKey (column_of [])))"
    by (simp add: column_of_simps obj_get_single isNaN_def StringToNumber_10_9_2)
  note T2 = compare_numeric_or_text [where st = "column_of []" and H = example_host and a = ?r10
      and b = ?r9, OF column_of_simps(2) refl refl, THEN conjunct1, THEN mp, OF n,
      THEN conjunct1]
  have 2: "compare example_host (column_of []) ?r10 ?r9 = 1"
    using T2 by (simp add: column_of_simps obj_get_single StringToNumber_10_9_2 outcome_def)
  let ?abc = "[(str ''v'', JStr (str ''abc''))]"
  let ?abd = "[(str ''v'', JStr (str ''abd''))]"
  have t: "(isNaN (obj_get example_host ?abc (sortKey (column_of []))) \<or>
       isNaN (obj_get example_host ?abd (sortKey (column_of [])))) \<and>
      toPrimitive (obj_get example_host ?abc (sortKey (column_of []))) = JStr (str ''abc'') \<and>
      toPrimitive (obj_get example_host ?abd (sortKey (column_of []))) = JStr (str ''abd'')"
    by (simp add: column_of_simps obj_get_single isNaN_abc)
  note T3 = compare_numeric_or_text [where st = "column_of []" and H = example_host and a = ?abc
      and b = ?abd and s = "str ''abc''" and t = "str ''abd''", OF column_of_simps(2) refl refl,
      THEN conjunct2, THEN conjunct1, THEN mp, OF t]
  have 3: "compare example_host (column_of []) ?abc ?abd = - 1"
    using T3 by (simp add: column_of_simps outcome_def str_def)
  let ?five = "[(str ''v'', JNum 5)]"
  have m: "(isNaN (obj_get example_host ?five (sortKey (column_of []))) \<or>
       isNaN (obj_get example_host ?abc (sortKey (column_of [])))) \<and>
      \<not> (\<exists>s t. toPrimitive (obj_get example_host ?five (sortKey (column_of []))) = JStr s \<and>
         toPrimitive (obj_get example_host ?abc (sortKey (column_of []))) = JStr t)"
    by (simp add: column_of_simps obj_get_single isNaN_abc)
  note T4 = compare_numeric_or_text [where st = "column_of []" and H = example_host and a = ?five
      and b = ?abc, OF column_of_simps(2) refl refl, THEN conjunct2, THEN conjunct2,
      THEN conjunct2, THEN conjunct1, THEN mp, OF m]
  let ?big = "[(str ''v'', JStr (str ''9007199254740993''))]"
  let ?even = "[(str ''v'', JStr (str ''9007199254740992''))]"
  have r: "\<not> isNaN (obj_get example_host ?big (sortKey (column_of []))) \<and>
      \<not> isNaN (obj_get example_host ?even (sortKey (column_of [])))"
    by (simp add: column_of_simps obj_get_single isNaN_def StringToNumber_rounds)
  note T5 = compare_numeric_or_text [where st = "column_of []" and H = example_host and a = ?big
      and b = ?even, OF column_of_simps(2) refl refl, THEN conjunct1, THEN mp, OF r,
      THEN conjunct1]
  have 5: "compare example_host (column_of []) ?big ?even = 0"
    using T5 by (simp add: column_of_simps obj_get_single StringToNumber_rounds outcome_def)
  let ?inf = "[(str ''v'', JStr (str ''1e400''))]"
  have i: "\<not> isNaN (obj_get example_host ?inf (sortKey (column_of []))) \<and>
      \<not> isNaN (obj_get example_host ?r9 (sortKey (column_of [])))"
    by (simp add: column_of_simps obj_get_single isNaN_def StringToNumber_rounds
        StringToNumber_10_9_2)
  note T6 = compare_numeric_or_text [where st = "column_of []" and H = example_host and a = ?inf
      and b = ?r9, OF column_of_simps(2) refl refl, THEN conjunct1, THEN mp, OF i,
      THEN conjunct1]
  have 6: "compare example_host (column_of []) ?inf ?r9 = 1"
    using T6 by (simp add: column_of_simps obj_get_single StringToNumber_rounds
        StringToNumber_10_9_2 outcome_def)
  from 1 2 3 T4 5 6 show ?thesis by (intro conjI)
qed

text \<open>
  Claim C2 as stated compares two values as text whenever they do not both parse as numbers.
  The number 5 and the text \<^verbatim>\<open>abc\<close> tie, although as text 5 comes first; and the character
  U+FF21 sorts after the surrogate pair of U+1F600, whose code point is larger.
\<close>

theorem number_ties_with_text:
  "compare example_host (column_of []) [(str ''v'', JNum 5)] [(str ''v'', JStr (str ''abc''))] = 0 \<and>
   compare_spec example_host True (JNum 5) (JStr (str ''abc'')) = - 1 \<and>
   compare example_host (column_of []) [(str ''v'', JStr [0xFF21])]
     [(str ''v'', JStr [0xD83D, 0xDE00])] = 1 \<and>
   compare_spec example_host True (JStr [0xFF21]) (JStr [0xD83D, 0xDE00]) = - 1"
  by code_simp

lemma sort_by_keeps_order:
  assumes "consistent_comparator cmp xs" "cmp x y = 0"
  shows "keeps_order x y xs (sort_by cmp xs)"
  unfolding keeps_order_def
proof (rule filter_sort_by)
  fix a b
  assume ab: "a \<in> set xs" "b \<in> set xs" "a = x \<or> a = y" "b = x \<or> b = y"
  from assms(1) ab have refl: "cmp a a = 0" and sym: "cmp a b = 0 \<longrightarrow> cmp b a = 0"
    unfolding consistent_comparator_def by blast+
  from assms(1) ab have sym': "cmp b a = 0 \<longrightarrow> cmp a b = 0"
    unfolding consistent_comparator_def by blast
  from ab(3,4) assms(2) refl sym sym' show "cmp a b \<le> 0"
    by auto
qed

text \<open>
  Claim C9, as amended. Whenever the comparison function is a consistent comparator for
  the rows being sorted, every result of the sort keeps the relative order of two rows that
  compare equal. It is consistent when no column is selected, when every value of the
  column is numeric, and when every value is a text that is not numeric. Sorting has a
  result whenever filtering has one.
\<close>

theorem sortedData_stable_if_consistent:
  "(filteredData H st = Inr rows \<and> consistent_comparator (compare H st) rows \<and>
    sortedData H st out \<and> compare H st x y = 0 \<longrightarrow> keeps_order x y rows out) \<and>
   (sortCol st < 0 \<or>
    (\<forall>r\<in>set rows. \<not> isNaN (obj_get H r (sortKey st))) \<or>
    (\<forall>r\<in>set rows. \<exists>s. obj_get H r (sortKey st) = JStr s \<and> isNaN (JStr s)) \<longrightarrow>
      consistent_comparator (compare H st) rows) \<and>
   (filteredData H st = Inr rows \<longrightarrow> sortedData H st (sort_by (compare H st) rows)) \<and>
   (filteredData H st = Inl e \<longrightarrow> \<not> sortedData H st out)"
proof (intro conjI impI)
  show "keeps_order x y rows out"
    if "filteredData H st = Inr rows \<and> consistent_comparator (compare H st) rows \<and>
      sortedData H st out \<and> compare H st x y = 0"
  proof -
    from that have f: "filteredData H st = Inr rows"
      and c: "consistent_comparator (compare H st) rows"
      and s: "sortedData H st out" and t: "compare H st x y = 0"
      by blast+
    from s f have "Array_sort (compare H st) rows out"
      by (simp add: sortedData_def)
    then have "out = sort_by (compare H st) rows"
      unfolding Array_sort_consistent [OF c] .
    with c t show ?thesis
      by (simp add: sort_by_keeps_order)
  qed
  show "consistent_comparator (compare H st) rows"
    if "sortCol st < 0 \<or>
      (\<forall>r\<in>set rows. \<not> isNaN (obj_get H r (sortKey st))) \<or>
      (\<forall>r\<in>set rows. \<exists>s. obj_get H r (sortKey st) = JStr s \<and> isNaN (JStr s))"
    using that compare_unsorted_consistent compare_numeric_consistent compare_text_consistent
    by blast
  show "sortedData H st (sort_by (compare H st) rows)" if "filteredData H st = Inr rows"
    using that by (simp add: sortedData_def Array_sort_sort_by)
  show "\<not> sortedData H st out" if "filteredData H st = Inl e"
    using that by (simp add: sortedData_def)
qed

lemma sortCol_column_of: "sortCol (column_of vs) = 0"
  by (simp add: column_of_def)

lemma StringToNumber_ties:
  "StringToNumber (str ''1.0'') = Fin 1" "StringToNumber (str ''1'') = Fin 1"
  "StringToNumber (str ''0'') = Fin 0" "StringToNumber (str ''1-'') = NaN"
  by code_simp+

theorem sortedData_stable_if_consistent_witness:
  "consistent_comparator
     (compare example_host (column_of [JStr (str ''1.0''), JStr (str ''0''), JStr (str ''1'')]))
     [[(str ''v'', JStr (str ''1.0''))], [(str ''v'', JStr (str ''0''))],
      [(str ''v'', JStr (str ''1''))]] \<and>
   sortedData example_host (column_of [JStr (str ''1.0''), JStr (str ''0''), JStr (str ''1'')])
     [[(str ''v'', JStr (str ''0''))], [(str ''v'', JStr (str ''1.0''))],
      [(str ''v'', JStr (str ''1''))]] \<and>
   compare example_host (column_of [JStr (str ''1.0''), JStr (str ''0''), JStr (str ''1'')])
     [(str ''v'', JStr (str ''1.0''))] [(str ''v'', JStr (str ''1''))] = 0 \<and>
   keeps_order [(str ''v'', JStr (str ''1.0''))] [(str ''v'', JStr (str ''1''))]
     [[(str ''v'', JStr (str ''1.0''))], [(str ''v'', JStr (str ''0''))],
      [(str ''v'', JStr (str ''1''))]]
     [[(str ''v'', JStr (str ''0''))], [(str ''v'', JStr (str ''1.0''))],
      [(str ''v'', JStr (str ''1''))]] \<and>
   \<not> sortedData example_host gap []"
proof -
  let ?st = "column_of [JStr (str ''1.0''), JStr (str ''0''), JStr (str ''1'')]"
  let ?a = "[(str ''v'', JStr (str ''1.0''))]"
  let ?z = "[(str ''v'', JStr (str ''0''))]"
  let ?b = "[(str ''v'', JStr (str ''1''))]"
  have rows: "filteredData example_host ?st = Inr [?a, ?z, ?b]"
    by (simp add: column_of_rows)
  have num: "sortCol ?st < 0 \<or>
      (\<forall>r\<in>set [?a, ?z, ?b]. \<not> isNaN (obj_get example_host r (sortKey ?st))) \<or>
      (\<forall>r\<in>set [?a, ?z, ?b]. \<exists>s. obj_get example_host r (sortKey ?st) = JStr s \<and> isNaN (JStr s))"
    by (simp add: column_of_simps obj_get_single isNaN_def StringToNumber_ties)
  note T = sortedData_stable_if_consistent [of example_host ?st "[?a, ?z, ?b]"]
  note cons = T [THEN conjunct2, THEN conjunct1, THEN mp, OF num]
  have cmp: "compare example_host ?st p q =
      outcome True (num_lt (Number (obj_get example_host p (str ''v'')))
          (Number (obj_get example_host q (str ''v''))))
        (num_lt (Number (obj_get example_host q (str ''v'')))
          (Number (obj_get example_host p (str ''v''))))"
    if "\<not> isNaN (obj_get example_host p (str ''v''))" "\<not> isNaN (obj_get example_host q (str ''v''))"
    for p q
    using compare_numeric [of ?st example_host p q] that by (simp add: column_of_simps)
  have tie: "compare example_host ?st ?a ?b = 0"
    by (simp add: cmp obj_get_single isNaN_def StringToNumber_ties outcome_def)
  have "sort_by (compare example_host ?st) [?a, ?z, ?b] = [?z, ?a, ?b]"
    by (simp add: sort_by_def cmp obj_get_single isNaN_def StringToNumber_ties outcome_def)
  with T [THEN conjunct2, THEN conjunct2, THEN conjunct1, THEN mp, OF rows]
  have sorted: "sortedData example_host ?st [?z, ?a, ?b]"
    by simp
  have h: "filteredData example_host ?st = Inr [?a, ?z, ?b] \<and>
      consistent_comparator (compare example_host ?st) [?a, ?z, ?b] \<and>
      sortedData example_host ?st [?z, ?a, ?b] \<and> compare example_host ?st ?a ?b = 0"
    using rows cons sorted tie by (intro conjI)
  note keep = sortedData_stable_if_consistent [of example_host ?st "[?a, ?z, ?b]" "[?z, ?a, ?b]" ?a ?b,
      THEN conjunct1, THEN mp, OF h]
  have g: "filteredData example_host gap = Inl TypeError"
    unfolding gap_value by code_simp
  note none = sortedData_stable_if_consistent [of example_host gap _ "[]" _ _ TypeError,
      THEN conjunct2, THEN conjunct2, THEN conjunct2, THEN mp, OF g]
  from cons sorted tie keep none show ?thesis
    by (intro conjI)
qed

text \<open>
  Claim C9 as stated holds for every input. In the column 1.0, 1-, 1 the rows 1.0 and 1
  compare equal as numbers, while 1.0 follows 1- and 1- follows 1 as texts: the comparison
  function is not consistent, the order is left to the implementation, and the reversed
  sequence (what an engine that reverses a strictly descending run returns) is a result
  in which the two tied rows have swapped.
\<close>

theorem tied_rows_may_swap:
  "filteredData example_host (column_of [JStr (str ''1.0''), JStr (str ''1-''), JStr (str ''1'')]) =
     Inr [[(str ''v'', JStr (str ''1.0''))], [(str ''v'', JStr (str ''1-''))],
      [(str ''v'', JStr (str ''1''))]] \<and>
   compare example_host (column_of [JStr (str ''1.0''), JStr (str ''1-''), JStr (str ''1'')])
     [(str ''v'', JStr (str ''1.0''))] [(str ''v'', JStr (str ''1''))] = 0 \<and>
   compare example_host (column_of [JStr (str ''1.0''), JStr (str ''1-''), JStr (str ''1'')])
     [(str ''v'', JStr (str ''1.0''))] [(str ''v'', JStr (str ''1-''))] = 1 \<and>
   compare example_host (column_of [JStr (str ''1.0''), JStr (str ''1-''), JStr (str ''1'')])
     [(str ''v'', JStr (str ''1-''))] [(str ''v'', JStr (str ''1''))] = 1 \<and>
   sortedData example_host (column_of [JStr (str ''1.0''), JStr (str ''1-''), JStr (str ''1'')])
     [[(str ''v'', JStr (str ''1''))], [(str ''v'', JStr (str ''1-''))],
      [(str ''v'', JStr (str ''1.0''))]] \<and>
   \<not> keeps_order [(str ''v'', JStr (str ''1.0''))] [(str ''v'', JStr (str ''1''))]
     [[(str ''v'', JStr (str ''1.0''))], [(str ''v'', JStr (str ''1-''))],
      [(str ''v'', JStr (str ''1''))]]
     [[(str ''v'', JStr (str ''1''))], [(str ''v'', JStr (str ''1-''))],
      [(str ''v'', JStr (str ''1.0''))]]"
proof -
  let ?st = "column_of [JStr (str ''1.0''), JStr (str ''1-''), JStr (str ''1'')]"
  let ?a = "[(str ''v'', JStr (str ''1.0''))]"
  let ?x = "[(str ''v'', JStr (str ''1-''))]"
  let ?b = "[(str ''v'', JStr (str ''1''))]"
  have rows: "filteredData example_host ?st = Inr [?a, ?x, ?b]"
    by (simp add: column_of_rows)
  have ab: "compare example_host ?st ?a ?b = 0"
    by code_simp
  have ax: "compare example_host ?st ?a ?x = 1"
    by code_simp
  have xb: "compare example_host ?st ?x ?b = 1"
    by code_simp
  have "\<not> consistent_comparator (compare example_host ?st) [?a, ?x, ?b]"
  proof
    assume c: "consistent_comparator (compare example_host ?st) [?a, ?x, ?b]"
    have m: "?a \<in> set [?a, ?x, ?b]" "?x \<in> set [?a, ?x, ?b]" "?b \<in> set [?a, ?x, ?b]"
      by simp_all
    from c [unfolded consistent_comparator_def, rule_format, OF m]
    have "0 < compare example_host ?st ?a ?x \<and> 0 < compare example_host ?st ?x ?b \<longrightarrow>
        0 < compare example_host ?st ?a ?b"
      by blast
    then show False
      unfolding ab ax xb by simp
  qed
  then have sorted: "sortedData example_host ?st [?b, ?x, ?a]"
    by (simp add: sortedData_def Array_sort_def rows)
  have ne: "?a \<noteq> ?b" "?x \<noteq> ?a" "?x \<noteq> ?b"
    by (simp_all add: str_def)
  have "\<not> keeps_order ?a ?b [?a, ?x, ?b] [?b, ?x, ?a]"
    using ne by (simp add: keeps_order_def)
  with rows ab ax xb sorted show ?thesis
    by (intro conjI)
qed

section \<open>Properties of the date decoder\<close>

text \<open>
  Claim C5. The decoder should return the calendar date \<open>serial\<close> days after 1899-12-30
  whatever the environment's time zone. It builds the epoch as a local midnight and prints
  the sum in UTC: one hour east of UTC, serial 1 is printed as 1899-12-30 and serial 44927
  as 2022-12-31, a day before the calendar dates 1899-12-31 and 2023-01-01 that it prints
  at offset 0.
\<close>

theorem parseGoogleSheetsDate_shifts_with_time_zone:
  "parseGoogleSheetsDate 3600000 (JNum 1) = Inr (str ''1899-12-30'') \<and>
   calendarDate 1 = str ''1899-12-31'' \<and>
   parseGoogleSheetsDate 0 (JNum 1) = Inr (str ''1899-12-31'') \<and>
   parseGoogleSheetsDate 3600000 (JNum 44927) = Inr (str ''2022-12-31'') \<and>
   calendarDate 44927 = str ''2023-01-01'' \<and>
   parseGoogleSheetsDate 0 (JNum 44927) = Inr (str ''2023-01-01'') \<and>
   parseGoogleSheetsDate 3600000 (JNum 0) = Inr []"
  by code_simp

text \<open>
  Claim C6. A falsy serial gives the empty text. A truthy serial that is not a number (a
  text such as \<^verbatim>\<open>abc\<close>) does not: the date is invalid and \<^verbatim>\<open>toISOString\<close> throws a
  RangeError.
\<close>

theorem parseGoogleSheetsDate_falsy_or_throws:
  "(\<not> truthy v \<longrightarrow> parseGoogleSheetsDate tza v = Inr []) \<and>
   (truthy v \<and> isNaN v \<longrightarrow> parseGoogleSheetsDate tza v = Inl RangeError)"
  by (simp add: parseGoogleSheetsDate_def isNaN_def)

theorem parseGoogleSheetsDate_falsy_or_throws_witness:
  "parseGoogleSheetsDate 3600000 (JStr (str ''abc'')) = Inl RangeError \<and>
   parseGoogleSheetsDate 3600000 (JStr []) = Inr []"
proof -
  have t: "truthy (JStr (str ''abc''))"
    by (simp add: str_def)
  have n: "isNaN (JStr (str ''abc''))"
    unfolding isNaN_def by code_simp
  have f: "\<not> truthy (JStr [])"
    by simp
  show ?thesis
    using parseGoogleSheetsDate_falsy_or_throws [of "JStr (str ''abc'')" 3600000]
      parseGoogleSheetsDate_falsy_or_throws [of "JStr []" 3600000] t n f
    by blast
qed

end
